theory Spec2Isabelle
  imports Main
begin

unbundle bit_operations_syntax

section \<open>Go library functions used by the webhook\<close>

text \<open>
  Go strings are byte sequences, modelled as \<open>string\<close>. A Go \<open>error\<close> is represented
  by its message (the code only ever calls \<open>err.Error()\<close>). A run-time panic is a value
  of type \<open>panic\<close>; functions that can panic return it explicitly.
\<close>

type_synonym bytes = string
type_synonym error = string

datatype panic =
    IndexOutOfRange
  | NilMapAssignment
  | NilPointerDereference
  | PanicError error

text \<open>
  \<open>strings.Split(s, sep)\<close> for a one-byte separator, the only form the code uses
  (\<open>"="\<close>, \<open>","\<close> and \<open>":"\<close>): cut at every occurrence of the separator; the result
  always has at least one element.
\<close>

function strings_Split :: "string \<Rightarrow> char \<Rightarrow> string list" where
  "strings_Split s sep =
     (case dropWhile (\<lambda>x. x \<noteq> sep) s of
        [] \<Rightarrow> [s]
      | _ # rest \<Rightarrow> takeWhile (\<lambda>x. x \<noteq> sep) s # strings_Split rest sep)"
  by pat_completeness auto
termination
proof (relation "measure (\<lambda>(s, sep). length s)")
  show "wf (measure (\<lambda>(s, sep). length s))" by simp
next
  fix s :: string and sep :: char and x21 :: char and x22 :: string
  assume a: "dropWhile (\<lambda>x. x \<noteq> sep) s = x21 # x22"
  have "length (dropWhile (\<lambda>x. x \<noteq> sep) s) \<le> length s"
    by (rule length_dropWhile_le)
  with a show "((x22, sep), s, sep) \<in> measure (\<lambda>(s, sep). length s)" by simp
qed

declare strings_Split.simps [simp del]

text \<open>
  \<open>path.Base\<close>: the empty path gives \<open>"."\<close>; trailing slashes are stripped; the part after
  the last slash is kept; a path of slashes only gives \<open>"/"\<close>.
\<close>

definition stripTrailingSlashes :: "string \<Rightarrow> string" where
  "stripTrailingSlashes p = rev (dropWhile (\<lambda>x. x = CHR ''/'') (rev p))"

definition path_Base :: "string \<Rightarrow> string" where
  "path_Base p =
     (if p = [] then ''.''
      else let q = stripTrailingSlashes p;
               r = rev (takeWhile (\<lambda>x. x \<noteq> CHR ''/'') (rev q))
           in if r = [] then ''/'' else r)"

text \<open>
  \<open>path.Clean\<close>: the path is read element by element. Empty elements and \<open>.\<close> are
  dropped; \<open>..\<close> removes the element before it when there is one that is not itself
  \<open>..\<close>, is dropped at the root of a rooted path, and is kept otherwise. The elements
  kept are joined with single slashes, after the root slash of a rooted path; an empty
  result is \<open>"."\<close>. The list of kept elements has the last one first.
\<close>

fun cleanElem :: "bool \<Rightarrow> string list \<Rightarrow> string \<Rightarrow> string list" where
  "cleanElem rooted kept e =
     (if e = [] \<or> e = ''.'' then kept
      else if e = ''..'' then
        (case kept of
           [] \<Rightarrow> if rooted then kept else [e]
         | k # rest \<Rightarrow>
             if k \<noteq> ''..'' then rest else if rooted then kept else e # kept)
      else e # kept)"

fun joinWith :: "string \<Rightarrow> string list \<Rightarrow> string" where
  "joinWith sep [] = []"
| "joinWith sep [e] = e"
| "joinWith sep (e # es) = e @ sep @ joinWith sep es"

definition path_Clean :: "string \<Rightarrow> string" where
  "path_Clean p =
     (case p of
        [] \<Rightarrow> ''.''
      | c # cs \<Rightarrow>
          (let rooted = (c = CHR ''/'');
               kept = foldl (cleanElem rooted) [] (strings_Split p CHR ''/'');
               out = (if rooted then ''/'' else []) @ joinWith ''/'' (rev kept)
           in if out = [] then ''.'' else out))"

text \<open>
  \<open>path.Join\<close>: nothing for elements that are all empty; otherwise the elements are
  appended with a slash between them, empty elements before the first non-empty one are
  skipped, and the result is cleaned.
\<close>

fun path_Join_loop :: "string list \<Rightarrow> string \<Rightarrow> string" where
  "path_Join_loop [] buf = buf"
| "path_Join_loop (e # es) buf =
     path_Join_loop es
       (if buf \<noteq> [] \<or> e \<noteq> []
        then (if buf \<noteq> [] then buf @ ''/'' @ e else e)
        else buf)"

definition path_Join :: "string list \<Rightarrow> string" where
  "path_Join elems =
     (if concat elems = [] then [] else path_Clean (path_Join_loop elems []))"

section \<open>Kubernetes and TLS data\<close>

record ObjectFieldSelector =
  FieldPath :: string

record EnvVarSource =
  FieldRef :: "ObjectFieldSelector option"

record EnvVar =
  Name :: string
  Value :: string
  ValueFrom :: "EnvVarSource option"

text \<open>
  An RSA private key is identified by the number the random source produced for it;
  a \<open>tls.Certificate\<close> is a chain of DER certificates with a private key. The zero
  value of \<open>tls.Certificate\<close> has an empty chain and no key.
\<close>

datatype rsa_PrivateKey = RSAKey nat

record tls_Certificate =
  Certificate :: "bytes list"
  PrivateKey :: "rsa_PrivateKey option"

definition zero_tls_Certificate :: tls_Certificate where
  "zero_tls_Certificate = \<lparr>Certificate = [], PrivateKey = None\<rparr>"

type_synonym Time = int

datatype ExtKeyUsage = ExtKeyUsageAny | ExtKeyUsageServerAuth | ExtKeyUsageClientAuth

definition KeyUsageDigitalSignature :: nat where "KeyUsageDigitalSignature = 1"
definition KeyUsageKeyEncipherment :: nat where "KeyUsageKeyEncipherment = 4"
definition KeyUsageCertSign :: nat where "KeyUsageCertSign = 32"

record x509_Certificate =
  SerialNumber :: int
  Subject_CommonName :: string
  NotBefore :: Time
  NotAfter :: Time
  BasicConstraintsValid :: bool
  IsCA :: bool
  ExtKeyUsage :: "ExtKeyUsage list"
  KeyUsage :: nat
  DNSNames :: "string list"

section \<open>Calls leaving the program\<close>

text \<open>
  The standard library's file, clock, random and cryptographic functions are parameters
  of the model, collected in one record. Each field is what the call of that name
  returns: \<open>Inl\<close> an error, \<open>Inr\<close> a result.
\<close>

record Crypto =
  time_Now :: Time
  time_AddDate :: "Time \<Rightarrow> int \<Rightarrow> int \<Rightarrow> int \<Rightarrow> Time"
  os_ReadFile :: "string \<Rightarrow> error + bytes"
  tls_LoadX509KeyPair :: "string \<Rightarrow> string \<Rightarrow> error + tls_Certificate"
  rsa_GenerateKey :: "nat \<Rightarrow> error + rsa_PrivateKey"
  x509_CreateCertificate ::
    "x509_Certificate \<Rightarrow> x509_Certificate \<Rightarrow> rsa_PrivateKey \<Rightarrow> error + bytes"
  x509_MarshalPKCS1PrivateKey :: "rsa_PrivateKey \<Rightarrow> bytes"
  base64_Lines :: "bytes \<Rightarrow> string"
  tls_X509KeyPair :: "bytes \<Rightarrow> bytes \<Rightarrow> error + tls_Certificate"

text \<open>
  \<open>pem.EncodeToMemory\<close> for a block without headers: the BEGIN line, the base64 body
  in lines, the END line.
\<close>

definition pem_EncodeToMemory :: "Crypto \<Rightarrow> string \<Rightarrow> bytes \<Rightarrow> bytes" where
  "pem_EncodeToMemory x typ b =
     ''-----BEGIN '' @ typ @ ''-----'' @ [CHR 0x0A] @ base64_Lines x b @
     ''-----END '' @ typ @ ''-----'' @ [CHR 0x0A]"

section \<open>Package config\<close>

datatype Mode = SpireMode | SelfregisterMode

text \<open>
  The fields of \<open>Config\<close> that the admission logic and the certificate resolution read,
  and its four unexported fields. \<open>once\<close> is \<open>True\<close> when the \<open>sync.Once\<close> has fired.
  \<open>Labels\<close> is a Go map that the code only ranges over: it is the list of its entries,
  whose keys are distinct.
\<close>

record Config =
  ServiceName :: string
  Namespace :: string
  Annotation :: string
  Labels :: "(string \<times> string) list"
  NSURLEnvName :: string
  InitContainerImages :: "string list"
  ContainerImages :: "string list"
  Envs :: "string list"
  WebhookMode :: Mode
  CertFilePath :: string
  KeyFilePath :: string
  CABundleFilePath :: string
  SidecarLimitsMemory :: string
  SidecarLimitsCPU :: string
  SidecarRequestsMemory :: string
  SidecarRequestsCPU :: string
  envs :: "EnvVar list"
  caBundle :: bytes
  cert :: tls_Certificate
  once :: bool

definition IsExistingCertificatesUsed :: "Config \<Rightarrow> bool" where
  "IsExistingCertificatesUsed c \<longleftrightarrow> CertFilePath c \<noteq> [] \<and> KeyFilePath c \<noteq> []"

text \<open>
  The loop of \<open>initializeEnvs\<close>: \<open>kv[1]\<close> panics when the split has one element. The
  second component is \<open>c.envs\<close> as far as the loop got.
\<close>

fun initializeEnvs_loop :: "string list \<Rightarrow> EnvVar list \<Rightarrow> panic option \<times> EnvVar list" where
  "initializeEnvs_loop [] acc = (None, acc)"
| "initializeEnvs_loop (envRaw # rest) acc =
     (let kv = strings_Split envRaw CHR ''=''
      in if length kv < 2 then (Some IndexOutOfRange, acc)
         else initializeEnvs_loop rest
                (acc @ [\<lparr>Name = kv ! 0, Value = kv ! 1, ValueFrom = None\<rparr>]))"

definition bootstrapEnvs :: "EnvVar list" where
  "bootstrapEnvs =
     [\<lparr>Name = ''SPIFFE_ENDPOINT_SOCKET'',
       Value = ''unix:///run/spire/sockets/agent.sock'', ValueFrom = None\<rparr>,
      \<lparr>Name = ''POD_NAME'', Value = [],
       ValueFrom = Some \<lparr>FieldRef = Some \<lparr>FieldPath = ''metadata.name''\<rparr>\<rparr>\<rparr>]"

definition initializeEnvs :: "Config \<Rightarrow> panic option \<times> Config" where
  "initializeEnvs c =
     (case initializeEnvs_loop (Envs c) (envs c) of
        (Some p, es) \<Rightarrow> (Some p, c\<lparr>envs := es\<rparr>)
      | (None, es) \<Rightarrow> (None, c\<lparr>envs := es @ bootstrapEnvs\<rparr>))"

definition selfSigned_template :: "Crypto \<Rightarrow> Config \<Rightarrow> x509_Certificate" where
  "selfSigned_template x c =
     (let now = time_Now x
      in \<lparr>SerialNumber = now,
          Subject_CommonName = ''networkservicemesh.'' @ ServiceName c @ ''-ca'',
          NotBefore = now,
          NotAfter = time_AddDate x now 1 0 0,
          BasicConstraintsValid = True,
          IsCA = True,
          ExtKeyUsage = [ExtKeyUsageServerAuth],
          KeyUsage = KeyUsageKeyEncipherment OR KeyUsageDigitalSignature OR KeyUsageCertSign,
          DNSNames = [ServiceName c @ ''.'' @ Namespace c,
                      ServiceName c @ ''.'' @ Namespace c @ ''.svc'']\<rparr>)"

text \<open>
  \<open>selfSignedInMemoryCertificate\<close> returns the key pair, or panics; \<open>c.caBundle\<close> is
  assigned last, so a panic leaves the configuration as it was.
\<close>

definition selfSignedInMemoryCertificate ::
  "Crypto \<Rightarrow> Config \<Rightarrow> (panic + tls_Certificate) \<times> Config" where
  "selfSignedInMemoryCertificate x c =
     (let template = selfSigned_template x c
      in case rsa_GenerateKey x 2048 of
           Inl e \<Rightarrow> (Inl (PanicError e), c)
         | Inr privateKey \<Rightarrow>
             (case x509_CreateCertificate x template template privateKey of
                Inl e \<Rightarrow> (Inl (PanicError e), c)
              | Inr certRaw \<Rightarrow>
                  (let pemCert = pem_EncodeToMemory x ''CERTIFICATE'' certRaw;
                       pemKey = pem_EncodeToMemory x ''RSA PRIVATE KEY''
                                  (x509_MarshalPKCS1PrivateKey x privateKey)
                   in case tls_X509KeyPair x pemCert pemKey of
                        Inl e \<Rightarrow> (Inl (PanicError e), c)
                      | Inr result \<Rightarrow> (Inr result, c\<lparr>caBundle := pemCert\<rparr>))))"

definition initializeCert :: "Crypto \<Rightarrow> Config \<Rightarrow> panic option \<times> Config" where
  "initializeCert x c =
     (if IsExistingCertificatesUsed c then
        (case tls_LoadX509KeyPair x (CertFilePath c) (KeyFilePath c) of
           Inl e \<Rightarrow> (Some (PanicError e), c)
         | Inr k \<Rightarrow> (None, c\<lparr>cert := k\<rparr>))
      else if WebhookMode c = SelfregisterMode then
        (case selfSignedInMemoryCertificate x c of
           (Inl p, c') \<Rightarrow> (Some p, c')
         | (Inr k, c') \<Rightarrow> (None, c'\<lparr>cert := k\<rparr>))
      else (None, c))"

definition initializeCABundle :: "Crypto \<Rightarrow> Config \<Rightarrow> panic option \<times> Config" where
  "initializeCABundle x c =
     (if WebhookMode c \<noteq> SelfregisterMode then (None, c)
      else if length (caBundle c) \<noteq> 0 then (None, c)
      else case os_ReadFile x (CABundleFilePath c) of
             Inl e \<Rightarrow> (Some (PanicError e), c)
           | Inr r \<Rightarrow> (None, c\<lparr>caBundle := r\<rparr>))"

definition initialize :: "Crypto \<Rightarrow> Config \<Rightarrow> panic option \<times> Config" where
  "initialize x c =
     (case initializeEnvs c of
        (Some p, c1) \<Rightarrow> (Some p, c1)
      | (None, c1) \<Rightarrow>
          (case initializeCert x c1 of
             (Some p, c2) \<Rightarrow> (Some p, c2)
           | (None, c2) \<Rightarrow> initializeCABundle x c2))"

text \<open>
  \<open>c.once.Do(c.initialize)\<close>: the function runs when the guard has not fired; the guard
  fires also when the function panics, and the panic propagates to the caller.
\<close>

definition once_Do :: "(Config \<Rightarrow> panic option \<times> Config) \<Rightarrow> Config \<Rightarrow> panic option \<times> Config" where
  "once_Do f c =
     (if once c then (None, c)
      else case f c of (p, c') \<Rightarrow> (p, c'\<lparr>once := True\<rparr>))"

definition GetOrResolveEnvs :: "Crypto \<Rightarrow> Config \<Rightarrow> (panic + EnvVar list) \<times> Config" where
  "GetOrResolveEnvs x c =
     (case once_Do (initialize x) c of
        (Some p, c') \<Rightarrow> (Inl p, c')
      | (None, c') \<Rightarrow> (Inr (envs c'), c'))"

definition GetOrResolveCABundle :: "Crypto \<Rightarrow> Config \<Rightarrow> (panic + bytes) \<times> Config" where
  "GetOrResolveCABundle x c =
     (case once_Do (initialize x) c of
        (Some p, c') \<Rightarrow> (Inl p, c')
      | (None, c') \<Rightarrow> (Inr (caBundle c'), c'))"

definition GetOrResolveCertificate :: "Crypto \<Rightarrow> Config \<Rightarrow> (panic + tls_Certificate) \<times> Config" where
  "GetOrResolveCertificate x c =
     (case once_Do (initialize x) c of
        (Some p, c') \<Rightarrow> (Inl p, c')
      | (None, c') \<Rightarrow> (Inr (cert c'), c'))"

section \<open>Objects of the admission request\<close>

text \<open>
  Go maps that may be \<open>nil\<close> are \<open>option\<close>s of maps. Reading a key of a \<open>nil\<close> map, or
  a missing key, gives the empty string.
\<close>

definition mapGet :: "(string \<rightharpoonup> string) option \<Rightarrow> string \<Rightarrow> string" where
  "mapGet m k =
     (case m of
        None \<Rightarrow> []
      | Some f \<Rightarrow> (case f k of None \<Rightarrow> [] | Some v \<Rightarrow> v))"

record OwnerReference =
  Kind :: string

record ObjectMeta =
  GenerateName :: string
  Labels :: "(string \<rightharpoonup> string) option"
  Annotations :: "(string \<rightharpoonup> string) option"
  OwnerReferences :: "OwnerReference list"

record VolumeMount =
  Name :: string
  MountPath :: string
  ReadOnly :: bool

text \<open>
  A \<open>resource.Quantity\<close> is either the parse of a configured string, or the parse of
  the decimal rendering of an integer (\<open>resource.MustParse(strconv.Itoa(value))\<close>, which
  always succeeds).
\<close>

datatype Quantity = DecimalQuantity int | ParsedQuantity string

record ResourceRequirements =
  Limits :: "(string \<rightharpoonup> Quantity) option"
  Requests :: "(string \<rightharpoonup> Quantity) option"

record SecurityContext =
  Capabilities_Drop :: "string list"
  AllowPrivilegeEscalation :: "bool option"

record Container =
  Name :: string
  Image :: string
  Env :: "EnvVar list"
  ImagePullPolicy :: string
  VolumeMounts :: "VolumeMount list"
  Resources :: ResourceRequirements
  SecurityContext :: "SecurityContext option"

record HostPathVolumeSource =
  Path :: string
  Type :: "string option"

record CSIVolumeSource =
  Driver :: string
  ReadOnly :: "bool option"

record VolumeSource =
  HostPath :: "HostPathVolumeSource option"
  CSI :: "CSIVolumeSource option"

record Volume =
  Name :: string
  VolumeSource :: VolumeSource

record PodSpec =
  InitContainers :: "Container list"
  Containers :: "Container list"
  Volumes :: "Volume list"

record Pod =
  ObjectMeta :: ObjectMeta
  Spec :: PodSpec

record PodTemplateSpec =
  ObjectMeta :: ObjectMeta
  Spec :: PodSpec

text \<open>
  \<open>appsv1.Deployment\<close>, \<open>DaemonSet\<close>, \<open>StatefulSet\<close> and \<open>ReplicaSet\<close>: the code reads
  their own metadata and \<open>Spec.Template\<close> only, so one record stands for the four.
\<close>

record appsv1_Object =
  ObjectMeta :: ObjectMeta
  Spec_Template :: PodTemplateSpec

record corev1_Namespace =
  ObjectMeta :: ObjectMeta

record AdmissionRequest =
  UID :: string
  Kind_Kind :: string
  Namespace :: string
  Operation :: string
  Object_Raw :: bytes

record Status =
  Status :: string

record AdmissionResponse =
  UID :: string
  Allowed :: bool
  Result :: "Status option"
  Patch :: "bytes option"
  PatchType :: "string option"

datatype PatchValue =
    ContainersValue "Container list"
  | VolumesValue "Volume list"
  | LabelsValue "(string \<rightharpoonup> string) option"

record JsonPatchOperation =
  Operation :: string
  Path :: string
  Value :: PatchValue

definition jsonpatch_NewOperation :: "string \<Rightarrow> string \<Rightarrow> PatchValue \<Rightarrow> JsonPatchOperation" where
  "jsonpatch_NewOperation op p v = \<lparr>Operation = op, Path = p, Value = v\<rparr>"

definition admissionv1_Create :: string where
  "admissionv1_Create = ''CREATE''"

definition PatchTypeJSONPatch :: string where
  "PatchTypeJSONPatch = ''JSONPatch''"

definition PullIfNotPresent :: string where
  "PullIfNotPresent = ''IfNotPresent''"

definition HostPathDirectory :: string where
  "HostPathDirectory = ''Directory''"

subsection \<open>Pod security levels (package \<open>pod-security-admission/api\<close>)\<close>

type_synonym Level = string

definition LevelPrivileged :: Level where "LevelPrivileged = ''privileged''"
definition LevelBaseline :: Level where "LevelBaseline = ''baseline''"
definition LevelRestricted :: Level where "LevelRestricted = ''restricted''"

definition EnforceLevelLabel :: string where
  "EnforceLevelLabel = ''pod-security.kubernetes.io/enforce''"

text \<open>\<open>psa.ParseLevel\<close> accepts the three level names and nothing else.\<close>

definition psa_ParseLevel :: "string \<Rightarrow> error + Level" where
  "psa_ParseLevel level =
     (if level = LevelPrivileged \<or> level = LevelBaseline \<or> level = LevelRestricted
      then Inr level
      else Inl ''must be one of privileged, baseline, restricted'')"

subsection \<open>The cluster and the other libraries\<close>

text \<open>
  What the webhook observes of its surroundings while it handles one request: the
  namespace lookup (a pointer that may be \<open>nil\<close>, and an error that may be \<open>nil\<close>), the
  JSON decoder and encoder, the UUID generator, the URL parser with the label reader
  of package \<open>nsurl\<close>, and the quantity parser.
\<close>

datatype url_URL = ParsedURL string

record Platform =
  namespaces_Get :: "string \<Rightarrow> corev1_Namespace option \<times> error option"
  json_Unmarshal_Pod :: "bytes \<Rightarrow> error + Pod"
  json_Unmarshal_apps :: "string \<Rightarrow> bytes \<Rightarrow> error + appsv1_Object"
  json_Marshal :: "JsonPatchOperation list \<Rightarrow> error + bytes"
  uuid_NewString :: string
  url_Parse :: "string \<Rightarrow> error + url_URL"
  nsurl_Labels :: "url_URL \<Rightarrow> (string \<rightharpoonup> string)"
  resource_ParseQuantity :: "string \<Rightarrow> error + Quantity"

text \<open>
  What a call leaves behind besides its result: the namespace queries sent to the
  cluster and the lines written with \<open>logger.Errorf\<close>. The two \<open>Infof\<close> lines of
  \<open>Review\<close>, which print the request and the response, are not recorded.
\<close>

datatype event =
    NamespaceGet string
  | LogError string

definition resource_MustParse :: "Platform \<Rightarrow> string \<Rightarrow> panic + Quantity" where
  "resource_MustParse k s =
     (case resource_ParseQuantity k s of
        Inl e \<Rightarrow> Inl (PanicError e)
      | Inr q \<Rightarrow> Inr q)"

section \<open>Package main: the admission webhook server\<close>

definition psaLevelByNamespace :: "corev1_Namespace option \<Rightarrow> Level" where
  "psaLevelByNamespace namespace =
     (case namespace of
        None \<Rightarrow> LevelPrivileged
      | Some ns \<Rightarrow>
          (case psa_ParseLevel
                  (mapGet (ObjectMeta.Labels (corev1_Namespace.ObjectMeta ns)) EnforceLevelLabel) of
             Inl err \<Rightarrow> LevelPrivileged
           | Inr level \<Rightarrow> level))"

definition malformedLine :: string where
  "malformedLine = ''Malformed specification. Annotations can't be provided in several places.''"

text \<open>The loop of \<open>postProcessPodMeta\<close> over the owner references.\<close>

fun ownedByDeployment :: "OwnerReference list \<Rightarrow> bool" where
  "ownedByDeployment [] = False"
| "ownedByDeployment (ref # refs) =
     (if Kind ref = ''Deployment'' then True else ownedByDeployment refs)"

text \<open>
  \<open>postProcessPodMeta\<close> writes through \<open>podMetaPtr\<close> and returns that pointer or \<open>nil\<close>.
  The model returns the pod metadata as the writes left it, whether the returned
  pointer is non-nil, and the error lines logged. \<open>metaPtr\<close> is \<open>nil\<close> for a Pod and is
  dereferenced for the other kinds only.
\<close>

definition postProcessPodMeta ::
  "ObjectMeta \<Rightarrow> ObjectMeta option \<Rightarrow> string \<Rightarrow> panic + (ObjectMeta \<times> bool) \<times> event list" where
  "postProcessPodMeta podMeta metaPtr kind =
     (let m1 = (case ObjectMeta.Labels podMeta of
                  None \<Rightarrow> podMeta\<lparr>ObjectMeta.Labels := Some Map.empty\<rparr>
                | Some labels \<Rightarrow> podMeta)
      in if kind \<noteq> ''Pod'' then
           (case ObjectMeta.Annotations m1 of
              None \<Rightarrow>
                (case metaPtr of
                   None \<Rightarrow> Inl NilPointerDereference
                 | Some m \<Rightarrow>
                     (let m2 = m1\<lparr>ObjectMeta.Annotations := ObjectMeta.Annotations m\<rparr>
                      in if kind = ''ReplicaSet'' \<and> ownedByDeployment (OwnerReferences m)
                         then Inr ((m2, False), [])
                         else Inr ((m2, True), [])))
            | Some annotations \<Rightarrow> Inr ((m1, False), [LogError malformedLine]))
         else Inr ((m1, True), []))"

text \<open>
  \<open>unmarshal\<close> returns the pod metadata and the pod spec, both non-nil or both \<open>nil\<close>; the
  pair is an \<open>option\<close>.
\<close>

definition unmarshal ::
  "Platform \<Rightarrow> AdmissionRequest \<Rightarrow> panic + (ObjectMeta \<times> PodSpec) option \<times> event list" where
  "unmarshal k req =
     (if Kind_Kind req = ''Pod'' then
        (case json_Unmarshal_Pod k (Object_Raw req) of
           Inl err \<Rightarrow> Inr (None, [])
         | Inr pod \<Rightarrow>
             (case postProcessPodMeta (Pod.ObjectMeta pod) None (Kind_Kind req) of
                Inl p \<Rightarrow> Inl p
              | Inr ((m, ok), evs) \<Rightarrow>
                  Inr (if ok then Some (m, Pod.Spec pod) else None, evs)))
      else if Kind_Kind req \<in> {''Deployment'', ''DaemonSet'', ''StatefulSet'', ''ReplicaSet''} then
        (case json_Unmarshal_apps k (Kind_Kind req) (Object_Raw req) of
           Inl err \<Rightarrow> Inr (None, [])
         | Inr obj \<Rightarrow>
             (case postProcessPodMeta (PodTemplateSpec.ObjectMeta (Spec_Template obj))
                     (Some (appsv1_Object.ObjectMeta obj)) (Kind_Kind req) of
                Inl p \<Rightarrow> Inl p
              | Inr ((m, ok), evs) \<Rightarrow>
                  Inr (if ok then Some (m, PodTemplateSpec.Spec (Spec_Template obj)) else None,
                       evs)))
      else Inr (None, []))"

subsection \<open>The four patch operations\<close>

definition spireAgentSocket :: string where "spireAgentSocket = ''spire-agent-socket''"
definition nsmSocket :: string where "nsmSocket = ''nsm-socket''"

definition createVolumesPatch :: "string \<Rightarrow> Volume list \<Rightarrow> Level \<Rightarrow> JsonPatchOperation" where
  "createVolumesPatch p volumes psaLevel =
     (let volumes' =
        (if psaLevel \<noteq> LevelPrivileged then
           volumes @
           [\<lparr>Volume.Name = spireAgentSocket,
             VolumeSource = \<lparr>HostPath = None,
               CSI = Some \<lparr>Driver = ''csi.spiffe.io'', CSIVolumeSource.ReadOnly = Some True\<rparr>\<rparr>\<rparr>,
            \<lparr>Volume.Name = nsmSocket,
             VolumeSource = \<lparr>HostPath = None,
               CSI = Some \<lparr>Driver = ''csi.networkservicemesh.io'',
                          CSIVolumeSource.ReadOnly = Some True\<rparr>\<rparr>\<rparr>]
         else
           volumes @
           [\<lparr>Volume.Name = spireAgentSocket,
             VolumeSource =
               \<lparr>HostPath = Some \<lparr>HostPathVolumeSource.Path = ''/run/spire/sockets'', Type = Some HostPathDirectory\<rparr>,
                CSI = None\<rparr>\<rparr>,
            \<lparr>Volume.Name = nsmSocket,
             VolumeSource =
               \<lparr>HostPath = Some \<lparr>HostPathVolumeSource.Path = ''/var/lib/networkservicemesh'',
                                 Type = Some HostPathDirectory\<rparr>,
                CSI = None\<rparr>\<rparr>])
      in jsonpatch_NewOperation ''add'' (path_Join [p, ''spec'', ''volumes'']) (VolumesValue volumes'))"

text \<open>
  \<open>poolResources\<close> is a Go map from pool name to count, kept as an association list
  with distinct keys; \<open>poolResources[k]++\<close> is \<open>incrPool\<close>.
\<close>

fun incrPool :: "string \<Rightarrow> (string \<times> int) list \<Rightarrow> (string \<times> int) list" where
  "incrPool k [] = [(k, 1)]"
| "incrPool k ((k', n) # r) = (if k = k' then (k', n + 1) # r else (k', n) # incrPool k r)"

text \<open>The first loop of \<open>parseResources\<close>: \<open>Inl\<close> the raw URL that failed to parse.\<close>

fun parseURLs :: "Platform \<Rightarrow> string list \<Rightarrow> url_URL list \<Rightarrow> string + url_URL list" where
  "parseURLs k [] nsmURLs = Inr nsmURLs"
| "parseURLs k (rawURL # rest) nsmURLs =
     (case url_Parse k rawURL of
        Inl err \<Rightarrow> Inl rawURL
      | Inr u \<Rightarrow> parseURLs k rest (nsmURLs @ [u]))"

text \<open>
  The second loop. \<open>interfacePools[0]\<close> is in range, as \<open>strings.Split\<close> never returns an
  empty list.
\<close>

fun countPools :: "Platform \<Rightarrow> url_URL list \<Rightarrow> (string \<times> int) list \<Rightarrow> (string \<times> int) list" where
  "countPools k [] poolResources = poolResources"
| "countPools k (nsmURL # rest) poolResources =
     (let labels = nsurl_Labels k nsmURL
      in case labels ''sriovToken'' of
           None \<Rightarrow> countPools k rest poolResources
         | Some tok \<Rightarrow>
             (case strings_Split tok CHR '','' of
                [] \<Rightarrow> countPools k rest poolResources
              | pool # _ \<Rightarrow> countPools k rest (incrPool pool poolResources)))"

text \<open>\<open>parseResources\<close>: \<open>None\<close> is the \<open>nil\<close> map returned for a malformed annotation.\<close>

definition parseResources :: "Platform \<Rightarrow> string \<Rightarrow> (string \<times> int) list option \<times> event list" where
  "parseResources k v =
     (case parseURLs k (strings_Split v CHR '','') [] of
        Inl rawURL \<Rightarrow> (None, [LogError (''Malformed NS annotation: '' @ rawURL)])
      | Inr nsmURLs \<Rightarrow> (Some (countPools k nsmURLs []), []))"

text \<open>\<open>nameOf\<close>: element 0 of the split, which is never empty.\<close>

definition nameOf :: "string \<Rightarrow> string" where
  "nameOf img = (case strings_Split (path_Base img) CHR '':'' of [] \<Rightarrow> [] | n # _ \<Rightarrow> n)"

definition addVolumeMounts :: "Container \<Rightarrow> Container" where
  "addVolumeMounts c =
     c\<lparr>VolumeMounts := VolumeMounts c @
          [\<lparr>VolumeMount.Name = spireAgentSocket, MountPath = ''/run/spire/sockets'',
            VolumeMount.ReadOnly = True\<rparr>,
           \<lparr>VolumeMount.Name = nsmSocket, MountPath = ''/var/lib/networkservicemesh'',
            VolumeMount.ReadOnly = True\<rparr>]\<rparr>"

text \<open>
  \<open>addResources\<close>: for every entry of the map, create \<open>c.Resources.Limits\<close> when it is
  \<open>nil\<close> and store the count under the pool's name.
\<close>

fun addResources_loop :: "Container \<Rightarrow> (string \<times> int) list \<Rightarrow> Container" where
  "addResources_loop c [] = c"
| "addResources_loop c ((key, val) # r) =
     (let limits = (case Limits (Resources c) of None \<Rightarrow> Map.empty | Some l \<Rightarrow> l)
      in addResources_loop
           (c\<lparr>Resources := (Resources c)\<lparr>Limits := Some (limits(key \<mapsto> DecimalQuantity val))\<rparr>\<rparr>) r)"

definition addResources :: "Container \<Rightarrow> (string \<times> int) list option \<Rightarrow> Container" where
  "addResources c r = (case r of None \<Rightarrow> c | Some kvs \<Rightarrow> addResources_loop c kvs)"

text \<open>
  The composite literal of \<open>addResourcesLimits\<close>: the four configured quantities, each
  parsed with \<open>resource.MustParse\<close>, which panics on a string that is no quantity.
\<close>

definition sidecarResources :: "Platform \<Rightarrow> Config \<Rightarrow> panic + ResourceRequirements" where
  "sidecarResources k cfg =
     (case resource_MustParse k (SidecarLimitsCPU cfg) of
        Inl p \<Rightarrow> Inl p
      | Inr lc \<Rightarrow>
     (case resource_MustParse k (SidecarLimitsMemory cfg) of
        Inl p \<Rightarrow> Inl p
      | Inr lm \<Rightarrow>
     (case resource_MustParse k (SidecarRequestsCPU cfg) of
        Inl p \<Rightarrow> Inl p
      | Inr rc \<Rightarrow>
     (case resource_MustParse k (SidecarRequestsMemory cfg) of
        Inl p \<Rightarrow> Inl p
      | Inr rm \<Rightarrow>
          Inr \<lparr>Limits = Some [''cpu'' \<mapsto> lc, ''memory'' \<mapsto> lm],
               Requests = Some [''cpu'' \<mapsto> rc, ''memory'' \<mapsto> rm]\<rparr>))))"

text \<open>\<open>addResourcesLimits\<close> assigns the whole of \<open>c.Resources\<close>.\<close>

definition addResourcesLimits :: "Platform \<Rightarrow> Config \<Rightarrow> Container \<Rightarrow> panic + Container" where
  "addResourcesLimits k cfg c =
     (case sidecarResources k cfg of
        Inl p \<Rightarrow> Inl p
      | Inr r \<Rightarrow> Inr (c\<lparr>Resources := r\<rparr>))"

definition restrictedSecurityContext :: SecurityContext where
  "restrictedSecurityContext =
     \<lparr>Capabilities_Drop = [''ALL''], AllowPrivilegeEscalation = Some False\<rparr>"

definition newContainer :: "string \<Rightarrow> EnvVar list \<Rightarrow> Container" where
  "newContainer img envVars =
     \<lparr>Container.Name = nameOf img, Image = img, Env = envVars,
      ImagePullPolicy = PullIfNotPresent, VolumeMounts = [],
      Resources = \<lparr>Limits = None, Requests = None\<rparr>, SecurityContext = None\<rparr>"

definition withSecurityContext :: "Level \<Rightarrow> Container \<Rightarrow> Container" where
  "withSecurityContext psaLevel c =
     (if psaLevel = LevelRestricted
      then c\<lparr>SecurityContext := Some restrictedSecurityContext\<rparr> else c)"

text \<open>The loop of \<open>createInitContainerPatch\<close> over \<open>s.config.InitContainerImages\<close>.\<close>

fun initContainers_loop ::
  "Platform \<Rightarrow> Config \<Rightarrow> (string \<times> int) list option \<Rightarrow> Level \<Rightarrow> EnvVar list \<Rightarrow>
   string list \<Rightarrow> Container list \<Rightarrow> panic + Container list" where
  "initContainers_loop k cfg poolResources psaLevel envVars [] initContainers = Inr initContainers"
| "initContainers_loop k cfg poolResources psaLevel envVars (img # imgs) initContainers =
     (let c1 = addVolumeMounts (newContainer img envVars);
          c2 = addResources c1 poolResources
      in case addResourcesLimits k cfg c2 of
           Inl p \<Rightarrow> Inl p
         | Inr c3 \<Rightarrow>
             initContainers_loop k cfg poolResources psaLevel envVars imgs
               (initContainers @ [withSecurityContext psaLevel c3]))"

definition createInitContainerPatch ::
  "Platform \<Rightarrow> Config \<Rightarrow> string \<Rightarrow> string \<Rightarrow> Container list \<Rightarrow> Level \<Rightarrow> EnvVar list \<Rightarrow>
   (panic + JsonPatchOperation) \<times> event list" where
  "createInitContainerPatch k cfg p v initContainers psaLevel envVars =
     (case parseResources k v of
        (poolResources, evs) \<Rightarrow>
          (case initContainers_loop k cfg poolResources psaLevel envVars
                  (InitContainerImages cfg) initContainers of
             Inl pn \<Rightarrow> (Inl pn, evs)
           | Inr cs \<Rightarrow>
               (Inr (jsonpatch_NewOperation ''add'' (path_Join [p, ''spec'', ''initContainers''])
                       (ContainersValue cs)), evs)))"

text \<open>The loop of \<open>createContainerPatch\<close> over \<open>s.config.ContainerImages\<close>.\<close>

fun containers_loop ::
  "Platform \<Rightarrow> Config \<Rightarrow> Level \<Rightarrow> EnvVar list \<Rightarrow> string list \<Rightarrow> Container list \<Rightarrow>
   panic + Container list" where
  "containers_loop k cfg psaLevel envVars [] containers = Inr containers"
| "containers_loop k cfg psaLevel envVars (img # imgs) containers =
     (let c1 = addVolumeMounts (newContainer img envVars)
      in case addResourcesLimits k cfg c1 of
           Inl p \<Rightarrow> Inl p
         | Inr c2 \<Rightarrow>
             containers_loop k cfg psaLevel envVars imgs
               (containers @ [withSecurityContext psaLevel c2]))"

definition createContainerPatch ::
  "Platform \<Rightarrow> Config \<Rightarrow> string \<Rightarrow> Container list \<Rightarrow> Level \<Rightarrow> EnvVar list \<Rightarrow>
   panic + JsonPatchOperation" where
  "createContainerPatch k cfg p containers psaLevel envVars =
     (case containers_loop k cfg psaLevel envVars (ContainerImages cfg) containers of
        Inl pn \<Rightarrow> Inl pn
      | Inr cs \<Rightarrow>
          Inr (jsonpatch_NewOperation ''add'' (path_Join [p, ''spec'', ''containers''])
                 (ContainersValue cs)))"

text \<open>The loop of \<open>createLabelPatch\<close>: \<open>v[key] = value\<close> for every configured entry.\<close>

fun storeLabels :: "(string \<times> string) list \<Rightarrow> (string \<rightharpoonup> string) \<Rightarrow> (string \<rightharpoonup> string)" where
  "storeLabels [] v = v"
| "storeLabels ((key, val) # rest) v = storeLabels rest (v(key \<mapsto> val))"

text \<open>
  \<open>createLabelPatch\<close> stores every configured label into the map \<open>v\<close>. Storing into a
  \<open>nil\<close> map panics; ranging over an empty configured map stores nothing.
\<close>

definition createLabelPatch ::
  "Config \<Rightarrow> string \<Rightarrow> (string \<rightharpoonup> string) option \<Rightarrow> panic + JsonPatchOperation" where
  "createLabelPatch cfg p v =
     (case v of
        None \<Rightarrow>
          (if Config.Labels cfg = []
           then Inr (jsonpatch_NewOperation ''add'' (path_Join [p, ''metadata'', ''labels''])
                       (LabelsValue None))
           else Inl NilMapAssignment)
      | Some m \<Rightarrow>
          Inr (jsonpatch_NewOperation ''add'' (path_Join [p, ''metadata'', ''labels''])
                 (LabelsValue (Some (storeLabels (Config.Labels cfg) m)))))"

subsection \<open>Review\<close>

text \<open>
  Lines 105 to 115 of \<open>Review\<close>: the annotation the decision is taken on. \<open>None\<close> is
  the early return for a kind other than Pod that has no annotation of its own.
\<close>

definition effectiveAnnotation ::
  "Config \<Rightarrow> string \<Rightarrow> ObjectMeta \<Rightarrow> corev1_Namespace option \<Rightarrow> string option" where
  "effectiveAnnotation cfg kind podMeta namespace =
     (let annotation = mapGet (ObjectMeta.Annotations podMeta) (Annotation cfg)
      in if annotation = [] \<and> kind \<noteq> ''Pod'' then None
         else if annotation = [] \<and> kind = ''Pod'' then
           (case namespace of
              None \<Rightarrow> Some annotation
            | Some ns \<Rightarrow>
                Some (mapGet (ObjectMeta.Annotations (corev1_Namespace.ObjectMeta ns))
                        (Annotation cfg)))
         else Some annotation)"

definition allowed :: "AdmissionResponse \<Rightarrow> AdmissionResponse" where
  "allowed resp = resp\<lparr>Allowed := True\<rparr>"

text \<open>
  Lines 118 to 122: the client identity variable. A workload without a generated-name
  prefix gets a fresh UUID appended.
\<close>

definition nsmNameEnv :: "Platform \<Rightarrow> ObjectMeta \<Rightarrow> EnvVar" where
  "nsmNameEnv k podMeta =
     \<lparr>EnvVar.Name = ''NSM_NAME'',
      Value = (if GenerateName podMeta = []
               then ''$(POD_NAME)-'' @ uuid_NewString k else ''$(POD_NAME)''),
      ValueFrom = None\<rparr>"

text \<open>
  Lines 117 to 146 of \<open>Review\<close>, entered with a non-empty annotation: build the
  environment, the four operations in the order of the slice literal, and serialise.
\<close>

definition Review_patch ::
  "Crypto \<Rightarrow> Platform \<Rightarrow> Config \<Rightarrow> AdmissionResponse \<Rightarrow> string \<Rightarrow> ObjectMeta \<Rightarrow> PodSpec \<Rightarrow>
   corev1_Namespace option \<Rightarrow> string \<Rightarrow> (panic + AdmissionResponse) \<times> event list \<times> Config" where
  "Review_patch x k cfg resp p podMeta spec namespace annotation =
     (case GetOrResolveEnvs x cfg of
        (Inl pn, cfg') \<Rightarrow> (Inl pn, [], cfg')
      | (Inr es, cfg') \<Rightarrow>
          (let envVars = es @ [\<lparr>EnvVar.Name = NSURLEnvName cfg', Value = annotation,
                                ValueFrom = None\<rparr>, nsmNameEnv k podMeta];
               psaLevel = psaLevelByNamespace namespace
           in case createInitContainerPatch k cfg' p annotation (InitContainers spec)
                     psaLevel envVars of
                (Inl pn, evs) \<Rightarrow> (Inl pn, evs, cfg')
              | (Inr op1, evs) \<Rightarrow>
                  (case createContainerPatch k cfg' p (Containers spec) psaLevel envVars of
                     Inl pn \<Rightarrow> (Inl pn, evs, cfg')
                   | Inr op2 \<Rightarrow>
                       (let op3 = createVolumesPatch p (Volumes spec) psaLevel
                        in case createLabelPatch cfg' p (ObjectMeta.Labels podMeta) of
                             Inl pn \<Rightarrow> (Inl pn, evs, cfg')
                           | Inr op4 \<Rightarrow>
                               (case json_Marshal k [op1, op2, op3, op4] of
                                  Inl err \<Rightarrow>
                                    (Inr (resp\<lparr>Result := Some \<lparr>Status = err\<rparr>\<rparr>), evs, cfg')
                                | Inr bs \<Rightarrow>
                                    (Inr (allowed
                                            (resp\<lparr>Patch := Some bs,
                                                  PatchType := Some PatchTypeJSONPatch\<rparr>)),
                                     evs, cfg'))))))"

text \<open>Lines 73 to 75: the response as created, not yet allowed.\<close>

definition resp0 :: "AdmissionRequest \<Rightarrow> AdmissionResponse" where
  "resp0 req = \<lparr>AdmissionResponse.UID = AdmissionRequest.UID req, Allowed = False,
                Result = None, Patch = None, PatchType = None\<rparr>"

text \<open>Lines 88 to 92: the root of the patch paths.\<close>

definition reviewPath :: "AdmissionRequest \<Rightarrow> string" where
  "reviewPath req = path_Join [''/'', if Kind_Kind req \<noteq> ''Pod'' then ''/spec/template'' else []]"

text \<open>
  Lines 94 to 99: the namespace is fetched for every CREATE request; a failure is
  logged.
\<close>

definition lookupEvents :: "Platform \<Rightarrow> AdmissionRequest \<Rightarrow> event list" where
  "lookupEvents k req =
     NamespaceGet (AdmissionRequest.Namespace req) #
     (case snd (namespaces_Get k (AdmissionRequest.Namespace req)) of
        None \<Rightarrow> []
      | Some e \<Rightarrow> [LogError (''failed to get namespace by name: '' @ e)])"

text \<open>
  \<open>Review\<close> returns the response or panics, the events in the order they happen, and
  the configuration with its memoised fields.
\<close>

definition Review ::
  "Crypto \<Rightarrow> Platform \<Rightarrow> Config \<Rightarrow> AdmissionRequest \<Rightarrow>
   (panic + AdmissionResponse) \<times> event list \<times> Config" where
  "Review x k cfg req =
     (let resp = resp0 req
      in if AdmissionRequest.Operation req \<noteq> admissionv1_Create then (Inr (allowed resp), [], cfg)
         else
           case unmarshal k req of
             Inl pn \<Rightarrow> (Inl pn, [], cfg)
           | Inr (view, evs1) \<Rightarrow>
               (let p = reviewPath req;
                    namespace = fst (namespaces_Get k (AdmissionRequest.Namespace req));
                    evs2 = evs1 @ lookupEvents k req
                in case view of
                     None \<Rightarrow> (Inr (allowed resp), evs2, cfg)
                   | Some (podMeta, spec) \<Rightarrow>
                       (case effectiveAnnotation cfg (Kind_Kind req) podMeta namespace of
                          None \<Rightarrow> (Inr (allowed resp), evs2, cfg)
                        | Some annotation \<Rightarrow>
                            if annotation \<noteq> [] then
                              (case Review_patch x k cfg resp p podMeta spec namespace
                                      annotation of
                                 (r, evs3, cfg') \<Rightarrow> (r, evs2 @ evs3, cfg'))
                            else (Inr (allowed resp), evs2, cfg))))"

section \<open>Reference values\<close>

text \<open>
  The environment variable that the entry \<open>e\<close> of \<open>Config.Envs\<close> stands for: the name is
  what precedes the first \<open>=\<close>, the value is what lies between the first \<open>=\<close> and the
  second one (or the end of the entry).
\<close>

definition envOf :: "string \<Rightarrow> EnvVar" where
  "envOf e = \<lparr>EnvVar.Name = takeWhile (\<lambda>x. x \<noteq> CHR ''='') e,
      Value = takeWhile (\<lambda>x. x \<noteq> CHR ''='') (tl (dropWhile (\<lambda>x. x \<noteq> CHR ''='') e)),
      ValueFrom = None\<rparr>"

text \<open>The response that allows a request and changes nothing.\<close>

definition allowedUnmodified :: "AdmissionRequest \<Rightarrow> AdmissionResponse" where
  "allowedUnmodified req = \<lparr>AdmissionResponse.UID = AdmissionRequest.UID req, Allowed = True,
                Result = None, Patch = None, PatchType = None\<rparr>"

text \<open>Pod metadata after the first step of \<open>postProcessPodMeta\<close>: the label map exists.\<close>

definition withLabels :: "ObjectMeta \<Rightarrow> ObjectMeta" where
  "withLabels m =
     (case ObjectMeta.Labels m of
        None \<Rightarrow> m\<lparr>ObjectMeta.Labels := Some Map.empty\<rparr>
      | Some labels \<Rightarrow> m)"

text \<open>
  The container that the two container loops append for an image, given the parsed
  resource requirements.
\<close>

definition sidecar :: "Level \<Rightarrow> EnvVar list \<Rightarrow> ResourceRequirements \<Rightarrow> string \<Rightarrow> Container" where
  "sidecar psaLevel envVars r img =
     withSecurityContext psaLevel ((addVolumeMounts (newContainer img envVars))\<lparr>Resources := r\<rparr>)"

text \<open>The PEM blocks that \<open>selfSignedInMemoryCertificate\<close> encodes.\<close>

definition pemCertOf :: "Crypto \<Rightarrow> bytes \<Rightarrow> bytes" where
  "pemCertOf x certRaw = pem_EncodeToMemory x ''CERTIFICATE'' certRaw"

definition pemKeyOf :: "Crypto \<Rightarrow> rsa_PrivateKey \<Rightarrow> bytes" where
  "pemKeyOf x privateKey =
     pem_EncodeToMemory x ''RSA PRIVATE KEY'' (x509_MarshalPKCS1PrivateKey x privateKey)"

text \<open>The two kinds of volume that the volumes patch appends.\<close>

definition csiVolume :: "string \<Rightarrow> string \<Rightarrow> Volume" where
  "csiVolume name driver =
     \<lparr>Volume.Name = name,
      VolumeSource = \<lparr>HostPath = None,
                       CSI = Some \<lparr>Driver = driver, CSIVolumeSource.ReadOnly = Some True\<rparr>\<rparr>\<rparr>"

definition hostPathVolume :: "string \<Rightarrow> string \<Rightarrow> Volume" where
  "hostPathVolume name dir =
     \<lparr>Volume.Name = name,
      VolumeSource = \<lparr>HostPath = Some \<lparr>HostPathVolumeSource.Path = dir,
                                        Type = Some ''Directory''\<rparr>,
                       CSI = None\<rparr>\<rparr>"

text \<open>The two pairs of volumes, and the operation that adds a list of volumes.\<close>

definition csiVolumes :: "Volume list" where
  "csiVolumes = [csiVolume ''spire-agent-socket'' ''csi.spiffe.io'',
                 csiVolume ''nsm-socket'' ''csi.networkservicemesh.io'']"

definition hostPathVolumes :: "Volume list" where
  "hostPathVolumes = [hostPathVolume ''spire-agent-socket'' ''/run/spire/sockets'',
                      hostPathVolume ''nsm-socket'' ''/var/lib/networkservicemesh'']"

definition volumesOperation :: "string \<Rightarrow> Volume list \<Rightarrow> JsonPatchOperation" where
  "volumesOperation p volumes =
     \<lparr>Operation = ''add'', Path = path_Join [p, ''spec'', ''volumes''],
      Value = VolumesValue volumes\<rparr>"

fun isNamespaceGet :: "event \<Rightarrow> bool" where
  "isNamespaceGet (NamespaceGet name) = True"
| "isNamespaceGet (LogError line) = False"

text \<open>
  One configuration and one set of library results, used to run the definitions on
  concrete inputs.
\<close>

definition sampleCrypto :: Crypto where
  "sampleCrypto =
     \<lparr>time_Now = 1700000000,
      time_AddDate = (\<lambda>t y m d. t + 31536000 * y + 2592000 * m + 86400 * d),
      os_ReadFile = (\<lambda>f. Inl ''no such file''),
      tls_LoadX509KeyPair = (\<lambda>f g. Inl ''no such file''),
      rsa_GenerateKey = (\<lambda>bits. Inr (RSAKey 7)),
      x509_CreateCertificate = (\<lambda>t p key. Inr ''DER''),
      x509_MarshalPKCS1PrivateKey = (\<lambda>key. ''KEY''),
      base64_Lines = (\<lambda>b. b @ [CHR 0x0A]),
      tls_X509KeyPair = (\<lambda>c key. Inr \<lparr>Certificate = [c], PrivateKey = Some (RSAKey 7)\<rparr>)\<rparr>"

definition sampleConfig :: Config where
  "sampleConfig =
     \<lparr>ServiceName = ''hook'', Config.Namespace = ''nsm'',
      Annotation = ''networkservicemesh.io'',
      Config.Labels = [(''mesh'', ''on'')],
      NSURLEnvName = ''NSM_NETWORK_SERVICES'',
      InitContainerImages = [''nsm/init:v1''],
      ContainerImages = [''nsm/nsc:v1''],
      Envs = [''LOG=TRACE'', ''OPTS=a=b''],
      WebhookMode = SpireMode,
      CertFilePath = [], KeyFilePath = [], CABundleFilePath = [],
      SidecarLimitsMemory = ''80Mi'', SidecarLimitsCPU = ''200m'',
      SidecarRequestsMemory = ''40Mi'', SidecarRequestsCPU = ''100m'',
      envs = [], caBundle = [], cert = zero_tls_Certificate, once = False\<rparr>"

definition sampleAnnotation :: string where
  "sampleAnnotation = ''k://a?sriovToken=p1,k://b?sriovToken=p1''"

definition samplePod :: Pod where
  "samplePod =
     \<lparr>Pod.ObjectMeta =
        \<lparr>GenerateName = [], ObjectMeta.Labels = Some [''app'' \<mapsto> ''demo''],
         Annotations = Some [''networkservicemesh.io'' \<mapsto> sampleAnnotation],
         OwnerReferences = []\<rparr>,
      Pod.Spec = \<lparr>InitContainers = [], Containers = [], Volumes = []\<rparr>\<rparr>"

definition sampleReplicaSet :: appsv1_Object where
  "sampleReplicaSet =
     \<lparr>appsv1_Object.ObjectMeta =
        \<lparr>GenerateName = [], ObjectMeta.Labels = None,
         Annotations = Some [''networkservicemesh.io'' \<mapsto> sampleAnnotation],
         OwnerReferences = [\<lparr>Kind = ''Deployment''\<rparr>]\<rparr>,
      Spec_Template =
        \<lparr>PodTemplateSpec.ObjectMeta =
           \<lparr>GenerateName = [], ObjectMeta.Labels = None, Annotations = None,
            OwnerReferences = []\<rparr>,
         PodTemplateSpec.Spec = \<lparr>InitContainers = [], Containers = [], Volumes = []\<rparr>\<rparr>\<rparr>"

definition sampleDeployment :: appsv1_Object where
  "sampleDeployment =
     \<lparr>appsv1_Object.ObjectMeta =
        \<lparr>GenerateName = [], ObjectMeta.Labels = None,
         Annotations = Some [''networkservicemesh.io'' \<mapsto> sampleAnnotation],
         OwnerReferences = []\<rparr>,
      Spec_Template =
        \<lparr>PodTemplateSpec.ObjectMeta =
           \<lparr>GenerateName = [], ObjectMeta.Labels = None, Annotations = None,
            OwnerReferences = []\<rparr>,
         PodTemplateSpec.Spec = \<lparr>InitContainers = [], Containers = [], Volumes = []\<rparr>\<rparr>\<rparr>"

definition sampleAnnotatedTwice :: appsv1_Object where
  "sampleAnnotatedTwice =
     \<lparr>appsv1_Object.ObjectMeta =
        \<lparr>GenerateName = [], ObjectMeta.Labels = None,
         Annotations = Some [''networkservicemesh.io'' \<mapsto> sampleAnnotation],
         OwnerReferences = []\<rparr>,
      Spec_Template =
        \<lparr>PodTemplateSpec.ObjectMeta =
           \<lparr>GenerateName = [], ObjectMeta.Labels = None,
            Annotations = Some [''team'' \<mapsto> ''a''],
            OwnerReferences = []\<rparr>,
         PodTemplateSpec.Spec = \<lparr>InitContainers = [], Containers = [], Volumes = []\<rparr>\<rparr>\<rparr>"

definition bareMeta :: ObjectMeta where
  "bareMeta = \<lparr>GenerateName = [], ObjectMeta.Labels = None, Annotations = None,
               OwnerReferences = []\<rparr>"

definition annotatedNamespace :: corev1_Namespace where
  "annotatedNamespace =
     \<lparr>corev1_Namespace.ObjectMeta =
        \<lparr>GenerateName = [], ObjectMeta.Labels = None,
         Annotations = Some [''networkservicemesh.io'' \<mapsto> ''k://c''],
         OwnerReferences = []\<rparr>\<rparr>"

definition unlabelledNamespace :: corev1_Namespace where
  "unlabelledNamespace =
     \<lparr>corev1_Namespace.ObjectMeta =
        \<lparr>GenerateName = [], ObjectMeta.Labels = None, Annotations = None,
         OwnerReferences = []\<rparr>\<rparr>"

definition otherLabelNamespace :: corev1_Namespace where
  "otherLabelNamespace =
     \<lparr>corev1_Namespace.ObjectMeta =
        \<lparr>GenerateName = [], ObjectMeta.Labels = Some [''team'' \<mapsto> ''a''], Annotations = None,
         OwnerReferences = []\<rparr>\<rparr>"

definition badLevelNamespace :: corev1_Namespace where
  "badLevelNamespace =
     \<lparr>corev1_Namespace.ObjectMeta =
        \<lparr>GenerateName = [],
         ObjectMeta.Labels = Some [''pod-security.kubernetes.io/enforce'' \<mapsto> ''strict''],
         Annotations = None, OwnerReferences = []\<rparr>\<rparr>"

definition sampleNamespace :: corev1_Namespace where
  "sampleNamespace =
     \<lparr>corev1_Namespace.ObjectMeta =
        \<lparr>GenerateName = [],
         ObjectMeta.Labels = Some [''pod-security.kubernetes.io/enforce'' \<mapsto> ''restricted''],
         Annotations = None, OwnerReferences = []\<rparr>\<rparr>"

definition samplePlatform :: Platform where
  "samplePlatform =
     \<lparr>namespaces_Get = (\<lambda>name. (Some sampleNamespace, None)),
      json_Unmarshal_Pod = (\<lambda>raw. if raw = ''POD'' then Inr samplePod else Inl ''invalid character''),
      json_Unmarshal_apps =
        (\<lambda>kind raw. if raw = ''RS'' then Inr sampleReplicaSet
                    else if raw = ''DEP'' then Inr sampleDeployment
                    else if raw = ''TWICE'' then Inr sampleAnnotatedTwice
                    else Inl ''invalid character''),
      json_Marshal = (\<lambda>ops. Inr ''PATCH''),
      uuid_NewString = ''6ba7b810'',
      url_Parse = (\<lambda>s. Inr (ParsedURL s)),
      nsurl_Labels =
        (\<lambda>u. if u = ParsedURL ''k://a?sriovToken=p1'' \<or> u = ParsedURL ''k://b?sriovToken=p1''
              then [''sriovToken'' \<mapsto> ''p1''] else Map.empty),
      resource_ParseQuantity = (\<lambda>s. Inr (ParsedQuantity s))\<rparr>"

definition samplePodRequest :: AdmissionRequest where
  "samplePodRequest =
     \<lparr>AdmissionRequest.UID = ''u1'', Kind_Kind = ''Pod'', AdmissionRequest.Namespace = ''ns1'',
      AdmissionRequest.Operation = ''CREATE'', Object_Raw = ''POD''\<rparr>"

definition sampleReplicaSetRequest :: AdmissionRequest where
  "sampleReplicaSetRequest =
     \<lparr>AdmissionRequest.UID = ''u2'', Kind_Kind = ''ReplicaSet'',
      AdmissionRequest.Namespace = ''ns1'', AdmissionRequest.Operation = ''CREATE'',
      Object_Raw = ''RS''\<rparr>"

definition sampleDeploymentRequest :: AdmissionRequest where
  "sampleDeploymentRequest =
     \<lparr>AdmissionRequest.UID = ''u3'', Kind_Kind = ''Deployment'',
      AdmissionRequest.Namespace = ''ns1'', AdmissionRequest.Operation = ''CREATE'',
      Object_Raw = ''DEP''\<rparr>"

definition sampleTwiceRequest :: AdmissionRequest where
  "sampleTwiceRequest =
     \<lparr>AdmissionRequest.UID = ''u4'', Kind_Kind = ''Deployment'',
      AdmissionRequest.Namespace = ''ns1'', AdmissionRequest.Operation = ''CREATE'',
      Object_Raw = ''TWICE''\<rparr>"

text \<open>The sample configuration in self-registering mode.\<close>

definition selfregisterConfig :: Config where
  "selfregisterConfig = sampleConfig\<lparr>WebhookMode := SelfregisterMode\<rparr>"

section \<open>Properties\<close>

subsection \<open>\<open>strings.Split\<close>\<close>

lemma strings_Split_not_Nil: "strings_Split s sep \<noteq> []"
  by (subst strings_Split.simps) (simp split: list.splits)

lemma dropWhile_Nil_iff_notin: "dropWhile (\<lambda>x. x \<noteq> sep) s = [] \<longleftrightarrow> sep \<notin> set s"
  by (induction s) auto

lemma strings_Split_absent: "sep \<notin> set s \<Longrightarrow> strings_Split s sep = [s]"
  by (subst strings_Split.simps) (simp add: dropWhile_Nil_iff_notin[THEN iffD2])

lemma strings_Split_present:
  assumes "sep \<in> set s"
  shows "strings_Split s sep =
           takeWhile (\<lambda>x. x \<noteq> sep) s # strings_Split (tl (dropWhile (\<lambda>x. x \<noteq> sep) s)) sep"
proof -
  from assms have "dropWhile (\<lambda>x. x \<noteq> sep) s \<noteq> []"
    by (simp add: dropWhile_Nil_iff_notin)
  then obtain y ys where d: "dropWhile (\<lambda>x. x \<noteq> sep) s = y # ys"
    by (cases "dropWhile (\<lambda>x. x \<noteq> sep) s") auto
  show ?thesis
    by (subst strings_Split.simps) (simp add: d)
qed

lemma strings_Split_hd: "hd (strings_Split s sep) = takeWhile (\<lambda>x. x \<noteq> sep) s"
proof (cases "sep \<in> set s")
  case True
  then show ?thesis by (simp add: strings_Split_present)
next
  case False
  then have b: "takeWhile (\<lambda>x. x \<noteq> sep) s = s" by (induction s) auto
  from False have a: "strings_Split s sep = [s]" by (rule strings_Split_absent)
  show ?thesis unfolding a b by simp
qed

lemma strings_Split_length: "length (strings_Split s sep) < 2 \<longleftrightarrow> sep \<notin> set s"
proof (cases "sep \<in> set s")
  case True
  have "strings_Split (tl (dropWhile (\<lambda>x. x \<noteq> sep) s)) sep \<noteq> []"
    by (rule strings_Split_not_Nil)
  then have "0 < length (strings_Split (tl (dropWhile (\<lambda>x. x \<noteq> sep) s)) sep)"
    by simp
  with True show ?thesis by (simp add: strings_Split_present)
next
  case False
  then show ?thesis by (simp add: strings_Split_absent)
qed

lemma strings_Split_nth0: "strings_Split s sep ! 0 = takeWhile (\<lambda>x. x \<noteq> sep) s"
  using strings_Split_hd[of s sep] strings_Split_not_Nil[of s sep]
  by (simp add: hd_conv_nth)

lemma strings_Split_nth1:
  assumes "sep \<in> set s"
  shows "strings_Split s sep ! Suc 0 =
           takeWhile (\<lambda>x. x \<noteq> sep) (tl (dropWhile (\<lambda>x. x \<noteq> sep) s))"
  using assms strings_Split_nth0[of "tl (dropWhile (\<lambda>x. x \<noteq> sep) s)" sep]
  by (simp add: strings_Split_present)

subsection \<open>The one-time initialisation of the configuration\<close>

lemma initializeEnvs_loop_ok:
  "(\<forall>e \<in> set es. CHR ''='' \<in> set e) \<Longrightarrow>
   initializeEnvs_loop es acc = (None, acc @ map envOf es)"
proof (induction es arbitrary: acc)
  case Nil
  then show ?case by simp
next
  case (Cons e es)
  then have e: "CHR ''='' \<in> set e" by simp
  then have "\<not> length (strings_Split e CHR ''='') < 2"
    by (simp add: strings_Split_length)
  with Cons e show ?case
    by (simp add: Let_def strings_Split_nth0 strings_Split_nth1 envOf_def)
qed

lemma initializeEnvs_loop_panics:
  "fst (initializeEnvs_loop es acc) = None \<Longrightarrow> (\<forall>e \<in> set es. CHR ''='' \<in> set e)"
proof (induction es arbitrary: acc)
  case Nil
  then show ?case by simp
next
  case (Cons e es)
  show ?case
  proof (cases "CHR ''='' \<in> set e")
    case True
    then have "\<not> length (strings_Split e CHR ''='') < 2"
      by (simp add: strings_Split_length)
    with Cons True show ?thesis by (simp add: Let_def)
  next
    case False
    then have "length (strings_Split e CHR ''='') < 2"
      by (simp add: strings_Split_length)
    with Cons.prems show ?thesis by (simp add: Let_def)
  qed
qed


lemma initialize_envs:
  assumes "\<not> once c" and "envs c = []"
  shows "(fst (once_Do (initialize x) c) = None \<longrightarrow> (\<forall>e \<in> set (Envs c). CHR ''='' \<in> set e)) \<and>
         (\<forall>es c'. GetOrResolveEnvs x c = (Inr es, c') \<longrightarrow>
            (\<forall>e \<in> set (Envs c). CHR ''='' \<in> set e) \<and> es = map envOf (Envs c) @ bootstrapEnvs) \<and>
         ((\<forall>e \<in> set (Envs c). CHR ''='' \<in> set e) \<longrightarrow>
            initializeEnvs c = (None, c\<lparr>envs := map envOf (Envs c) @ bootstrapEnvs\<rparr>))"
proof (intro conjI allI impI)
  assume ok: "\<forall>e \<in> set (Envs c). CHR ''='' \<in> set e"
  show "initializeEnvs c = (None, c\<lparr>envs := map envOf (Envs c) @ bootstrapEnvs\<rparr>)"
    using assms(2) by (simp add: initializeEnvs_def initializeEnvs_loop_ok[OF ok])
next
  assume "fst (once_Do (initialize x) c) = None"
  with assms(1) have "fst (initialize x c) = None"
    by (simp add: once_Do_def split: prod.splits)
  then have "fst (initializeEnvs c) = None"
    by (auto simp: initialize_def split: prod.splits option.splits)
  then have "fst (initializeEnvs_loop (Envs c) (envs c)) = None"
    by (auto simp: initializeEnvs_def split: prod.splits option.splits)
  then show "\<forall>e \<in> set (Envs c). CHR ''='' \<in> set e"
    by (rule initializeEnvs_loop_panics)
next
  fix es c'
  assume g: "GetOrResolveEnvs x c = (Inr es, c')"
  then obtain c1 where o: "once_Do (initialize x) c = (None, c1)" and es: "es = envs c1"
    by (auto simp: GetOrResolveEnvs_def split: prod.splits option.splits)
  with assms(1) obtain c2 where i: "initialize x c = (None, c2)" and c1: "c1 = c2\<lparr>once := True\<rparr>"
    by (auto simp: once_Do_def split: prod.splits)
  from i obtain c3 where e: "initializeEnvs c = (None, c3)" and "envs c2 = envs c3"
    by (auto simp: initialize_def initializeCert_def initializeCABundle_def
          selfSignedInMemoryCertificate_def Let_def
          split: prod.splits option.splits sum.splits if_splits)
  from e have "fst (initializeEnvs_loop (Envs c) (envs c)) = None"
    by (auto simp: initializeEnvs_def split: prod.splits option.splits)
  then have ok: "\<forall>e \<in> set (Envs c). CHR ''='' \<in> set e"
    by (rule initializeEnvs_loop_panics)
  from e assms(2) have "envs c3 = map envOf (Envs c) @ bootstrapEnvs"
    by (auto simp: initializeEnvs_def initializeEnvs_loop_ok[OF ok])
  with es c1 \<open>envs c2 = envs c3\<close> show "es = map envOf (Envs c) @ bootstrapEnvs"
    by simp
  from ok show "\<forall>e \<in> set (Envs c). CHR ''='' \<in> set e" .
qed


text \<open>
  C10. On a configuration as loaded (the guard not fired, no resolved variables yet), the
  one-time initialisation, whichever accessor triggers it, completes without a panic
  only if every entry of \<open>Config.Envs\<close> contains an \<open>=\<close>; when \<open>GetOrResolveEnvs\<close> returns,
  it returns one variable per entry, named by the text before the first \<open>=\<close> and valued
  by the text between the first and the second \<open>=\<close>, followed by the two bootstrap
  variables: \<open>SPIFFE_ENDPOINT_SOCKET\<close> with the agent socket as its value, and \<open>POD_NAME\<close>
  with no value and a reference to the field \<open>metadata.name\<close>; and when every entry
  contains an \<open>=\<close>, \<open>initializeEnvs\<close> does not panic and leaves exactly that list.
\<close>

theorem GetOrResolveEnvs_first_call:
  assumes "\<not> once c" and "envs c = []"
  shows "(fst (once_Do (initialize x) c) = None \<longrightarrow> (\<forall>e \<in> set (Envs c). CHR ''='' \<in> set e)) \<and>
         (\<forall>es c'. GetOrResolveEnvs x c = (Inr es, c') \<longrightarrow>
            (\<forall>e \<in> set (Envs c). CHR ''='' \<in> set e) \<and>
            es = map envOf (Envs c) @
               [\<lparr>EnvVar.Name = ''SPIFFE_ENDPOINT_SOCKET'',
                 Value = ''unix:///run/spire/sockets/agent.sock'', ValueFrom = None\<rparr>,
                \<lparr>EnvVar.Name = ''POD_NAME'', Value = [],
                 ValueFrom = Some \<lparr>FieldRef = Some \<lparr>FieldPath = ''metadata.name''\<rparr>\<rparr>\<rparr>]) \<and>
         ((\<forall>e \<in> set (Envs c). CHR ''='' \<in> set e) \<longrightarrow>
            initializeEnvs c =
              (None,
               c\<lparr>envs := map envOf (Envs c) @
               [\<lparr>EnvVar.Name = ''SPIFFE_ENDPOINT_SOCKET'',
                 Value = ''unix:///run/spire/sockets/agent.sock'', ValueFrom = None\<rparr>,
                \<lparr>EnvVar.Name = ''POD_NAME'', Value = [],
                 ValueFrom = Some \<lparr>FieldRef = Some \<lparr>FieldPath = ''metadata.name''\<rparr>\<rparr>\<rparr>]\<rparr>))"
  using initialize_envs[OF assms, of x] unfolding bootstrapEnvs_def .

theorem GetOrResolveEnvs_first_call_witness:
  "\<not> once sampleConfig \<and> envs sampleConfig = [] \<and>
   list_all (\<lambda>e. CHR ''='' \<in> set e) (Envs sampleConfig) \<and>
   fst (GetOrResolveEnvs sampleCrypto sampleConfig) =
     Inr [\<lparr>EnvVar.Name = ''LOG'', Value = ''TRACE'', ValueFrom = None\<rparr>,
          \<lparr>EnvVar.Name = ''OPTS'', Value = ''a'', ValueFrom = None\<rparr>,
          \<lparr>EnvVar.Name = ''SPIFFE_ENDPOINT_SOCKET'',
           Value = ''unix:///run/spire/sockets/agent.sock'', ValueFrom = None\<rparr>,
          \<lparr>EnvVar.Name = ''POD_NAME'', Value = [],
           ValueFrom = Some \<lparr>FieldRef = Some \<lparr>FieldPath = ''metadata.name''\<rparr>\<rparr>\<rparr>]"
proof -
  have h1: "\<not> once sampleConfig" and h2: "envs sampleConfig = []"
    by (simp_all add: sampleConfig_def)
  have r: "fst (once_Do (initialize sampleCrypto) sampleConfig) = None"
    by (simp add: once_Do_def initialize_def initializeEnvs_def
     initializeCert_def initializeCABundle_def IsExistingCertificatesUsed_def sampleConfig_def Let_def strings_Split.simps)
  then obtain c' where o: "once_Do (initialize sampleCrypto) sampleConfig = (None, c')"
    by (cases "once_Do (initialize sampleCrypto) sampleConfig") auto
  then have g: "GetOrResolveEnvs sampleCrypto sampleConfig = (Inr (envs c'), c')"
    by (simp add: GetOrResolveEnvs_def)
  from GetOrResolveEnvs_first_call[OF h1 h2, of sampleCrypto] g
  have "(\<forall>e \<in> set (Envs sampleConfig). CHR ''='' \<in> set e) \<and>
        envs c' = map envOf (Envs sampleConfig) @
               [\<lparr>EnvVar.Name = ''SPIFFE_ENDPOINT_SOCKET'',
                 Value = ''unix:///run/spire/sockets/agent.sock'', ValueFrom = None\<rparr>,
                \<lparr>EnvVar.Name = ''POD_NAME'', Value = [],
                 ValueFrom = Some \<lparr>FieldRef = Some \<lparr>FieldPath = ''metadata.name''\<rparr>\<rparr>\<rparr>]"
    by blast
  with h1 h2 g show ?thesis
    by (simp add: envOf_def sampleConfig_def list_all_iff)
qed


subsection \<open>Security level and volumes\<close>

lemma psa_ParseLevel_Inl:
  "level \<notin> {''privileged'', ''baseline'', ''restricted''} \<Longrightarrow> \<exists>e. psa_ParseLevel level = Inl e"
  by (simp add: psa_ParseLevel_def LevelPrivileged_def LevelBaseline_def LevelRestricted_def)

subsection \<open>The shape of \<open>Review\<close>\<close>

lemma withLabels_fields:
  "\<exists>labels. ObjectMeta.Labels (withLabels m) = Some labels"
  "ObjectMeta.Annotations (withLabels m) = ObjectMeta.Annotations m"
  "GenerateName (withLabels m) = GenerateName m"
  "OwnerReferences (withLabels m) = OwnerReferences m"
  by (simp_all add: withLabels_def split: option.splits)

lemma postProcessPodMeta_eq:
  "postProcessPodMeta podMeta metaPtr kind =
     (if kind \<noteq> ''Pod'' then
        (if ObjectMeta.Annotations podMeta = None then
           (case metaPtr of
              None \<Rightarrow> Inl NilPointerDereference
            | Some m \<Rightarrow>
                Inr (((withLabels podMeta)\<lparr>ObjectMeta.Annotations := ObjectMeta.Annotations m\<rparr>,
                      \<not> (kind = ''ReplicaSet'' \<and> ownedByDeployment (OwnerReferences m))), []))
         else Inr ((withLabels podMeta, False), [LogError malformedLine]))
      else Inr ((withLabels podMeta, True), []))"
  by (cases "ObjectMeta.Labels podMeta"; cases "ObjectMeta.Annotations podMeta"; cases metaPtr)
     (simp_all add: postProcessPodMeta_def withLabels_def Let_def)

lemma allowed_resp0: "allowed (resp0 req) = allowedUnmodified req"
  by (simp add: allowed_def resp0_def allowedUnmodified_def)

lemma ownedByDeployment_iff:
  "ownedByDeployment refs \<longleftrightarrow> (\<exists>ref \<in> set refs. Kind ref = ''Deployment'')"
  by (induction refs) auto

lemma unmarshal_no_panic: "unmarshal k req \<noteq> Inl pn"
  by (auto simp: unmarshal_def postProcessPodMeta_eq split: sum.splits if_splits)

lemma Review_not_create:
  "AdmissionRequest.Operation req \<noteq> ''CREATE'' \<Longrightarrow>
   Review x k cfg req = (Inr (allowedUnmodified req), [], cfg)"
  by (simp add: Review_def admissionv1_Create_def allowed_resp0)

lemma Review_create:
  assumes "AdmissionRequest.Operation req = ''CREATE''"
    and "unmarshal k req = Inr (view, evs1)"
  shows "Review x k cfg req =
     (case view of
        None \<Rightarrow> (Inr (allowedUnmodified req), evs1 @ lookupEvents k req, cfg)
      | Some (podMeta, spec) \<Rightarrow>
          (case effectiveAnnotation cfg (Kind_Kind req) podMeta
                  (fst (namespaces_Get k (AdmissionRequest.Namespace req))) of
             None \<Rightarrow> (Inr (allowedUnmodified req), evs1 @ lookupEvents k req, cfg)
           | Some a \<Rightarrow>
               if a \<noteq> [] then
                 (case Review_patch x k cfg (resp0 req) (reviewPath req) podMeta spec
                         (fst (namespaces_Get k (AdmissionRequest.Namespace req))) a of
                    (r, evs3, cfg') \<Rightarrow> (r, evs1 @ lookupEvents k req @ evs3, cfg'))
               else (Inr (allowedUnmodified req), evs1 @ lookupEvents k req, cfg)))"
  using assms
  by (simp add: Review_def admissionv1_Create_def allowed_resp0 Let_def
      split: prod.splits option.splits)

subsection \<open>The sample request\<close>

lemma sample_unmarshal:
  "unmarshal samplePlatform samplePodRequest =
     Inr (Some (Pod.ObjectMeta samplePod, Pod.Spec samplePod), [])"
  by (simp add: unmarshal_def samplePlatform_def samplePodRequest_def postProcessPodMeta_eq
      withLabels_def
      samplePod_def)

lemma sample_effective:
  "effectiveAnnotation sampleConfig ''Pod'' (Pod.ObjectMeta samplePod) (Some sampleNamespace) =
     Some sampleAnnotation"
  by (simp add: effectiveAnnotation_def sampleConfig_def samplePod_def mapGet_def sampleAnnotation_def)

lemma sample_parseResources:
  "parseResources samplePlatform sampleAnnotation = (Some [(''p1'', 2)], [])"
  by (simp add: parseResources_def sampleAnnotation_def strings_Split.simps samplePlatform_def)

lemma sample_envs:
  "GetOrResolveEnvs sampleCrypto sampleConfig =
    (Inr ([\<lparr>EnvVar.Name = ''LOG'', Value = ''TRACE'', ValueFrom = None\<rparr>,
           \<lparr>EnvVar.Name = ''OPTS'', Value = ''a'', ValueFrom = None\<rparr>] @ bootstrapEnvs),
     sampleConfig\<lparr>envs := [\<lparr>EnvVar.Name = ''LOG'', Value = ''TRACE'', ValueFrom = None\<rparr>,
           \<lparr>EnvVar.Name = ''OPTS'', Value = ''a'', ValueFrom = None\<rparr>] @ bootstrapEnvs, once := True\<rparr>)"
  by (simp add: GetOrResolveEnvs_def once_Do_def initialize_def initializeEnvs_def
     initializeCert_def initializeCABundle_def IsExistingCertificatesUsed_def sampleConfig_def Let_def strings_Split.simps)


subsection \<open>The effective annotation\<close>

text \<open>
  C4. With \<open>own\<close> the workload's own annotation value: a non-empty \<open>own\<close> is the
  effective annotation; an empty one gives no annotation for a kind other than Pod;
  for a Pod it gives the namespace's annotation value when the namespace was resolved
  and the empty value when it was not. \<open>Review\<close> allows the request unmodified when the
  effective annotation is absent or empty, and builds the patch from it otherwise.
\<close>

theorem effectiveAnnotation_resolution:
  assumes "own = mapGet (ObjectMeta.Annotations podMeta) (Annotation cfg)"
  shows "(own \<noteq> [] \<longrightarrow> effectiveAnnotation cfg kind podMeta namespace = Some own) \<and>
         (own = [] \<and> kind \<noteq> ''Pod'' \<longrightarrow> effectiveAnnotation cfg kind podMeta namespace = None) \<and>
         (own = [] \<and> kind = ''Pod'' \<longrightarrow>
            effectiveAnnotation cfg kind podMeta (Some ns) =
              Some (mapGet (ObjectMeta.Annotations (corev1_Namespace.ObjectMeta ns)) (Annotation cfg))) \<and>
         (own = [] \<and> kind = ''Pod'' \<longrightarrow> effectiveAnnotation cfg kind podMeta None = Some []) \<and>
         (\<forall>x k req spec evs1.
            AdmissionRequest.Operation req = ''CREATE'' \<and> Kind_Kind req = kind \<and>
            unmarshal k req = Inr (Some (podMeta, spec), evs1) \<and>
            namespace = fst (namespaces_Get k (AdmissionRequest.Namespace req)) \<longrightarrow>
            (case effectiveAnnotation cfg kind podMeta namespace of
               None \<Rightarrow> fst (Review x k cfg req) = Inr (allowedUnmodified req)
             | Some a \<Rightarrow>
                 if a = [] then fst (Review x k cfg req) = Inr (allowedUnmodified req)
                 else fst (Review x k cfg req) =
                        fst (Review_patch x k cfg (resp0 req) (reviewPath req) podMeta spec
                               namespace a)))"
proof (intro conjI impI allI)
  fix x k req spec evs1
  assume a: "AdmissionRequest.Operation req = ''CREATE'' \<and> Kind_Kind req = kind \<and>
            unmarshal k req = Inr (Some (podMeta, spec), evs1) \<and>
            namespace = fst (namespaces_Get k (AdmissionRequest.Namespace req))"
  then have c: "AdmissionRequest.Operation req = ''CREATE''"
    and u: "unmarshal k req = Inr (Some (podMeta, spec), evs1)" by simp_all
  show "(case effectiveAnnotation cfg kind podMeta namespace of
               None \<Rightarrow> fst (Review x k cfg req) = Inr (allowedUnmodified req)
             | Some a \<Rightarrow>
                 if a = [] then fst (Review x k cfg req) = Inr (allowedUnmodified req)
                 else fst (Review x k cfg req) =
                        fst (Review_patch x k cfg (resp0 req) (reviewPath req) podMeta spec
                               namespace a))"
    using a by (simp add: Review_create[OF c u] split: option.splits prod.splits)
qed (use assms in \<open>auto simp: effectiveAnnotation_def\<close>)

theorem effectiveAnnotation_resolution_witness:
  "effectiveAnnotation sampleConfig ''Pod'' (Pod.ObjectMeta samplePod) (Some annotatedNamespace) =
     Some sampleAnnotation \<and>
   effectiveAnnotation sampleConfig ''Deployment'' bareMeta (Some annotatedNamespace) = None \<and>
   effectiveAnnotation sampleConfig ''Pod'' bareMeta (Some annotatedNamespace) = Some ''k://c'' \<and>
   effectiveAnnotation sampleConfig ''Pod'' bareMeta None = Some [] \<and>
   fst (Review sampleCrypto samplePlatform sampleConfig samplePodRequest) =
     fst (Review_patch sampleCrypto samplePlatform sampleConfig (resp0 samplePodRequest)
            (reviewPath samplePodRequest) (Pod.ObjectMeta samplePod) (Pod.Spec samplePod)
            (Some sampleNamespace) sampleAnnotation)"
proof -
  have own1: "sampleAnnotation = mapGet (ObjectMeta.Annotations (Pod.ObjectMeta samplePod))
                (Annotation sampleConfig)"
    by (simp add: samplePod_def sampleConfig_def mapGet_def)
  have own2: "[] = mapGet (ObjectMeta.Annotations bareMeta) (Annotation sampleConfig)"
    by (simp add: bareMeta_def mapGet_def)
  have ne: "sampleAnnotation \<noteq> []"
    by (simp add: sampleAnnotation_def)
  have nsa: "mapGet (ObjectMeta.Annotations (corev1_Namespace.ObjectMeta annotatedNamespace))
               (Annotation sampleConfig) = ''k://c''"
    by (simp add: annotatedNamespace_def sampleConfig_def mapGet_def)
  have ns: "fst (namespaces_Get samplePlatform (AdmissionRequest.Namespace samplePodRequest)) =
              Some sampleNamespace"
    by (simp add: samplePlatform_def)
  have req: "AdmissionRequest.Operation samplePodRequest = ''CREATE''"
    "Kind_Kind samplePodRequest = ''Pod''"
    by (simp_all add: samplePodRequest_def)
  note t1 = effectiveAnnotation_resolution[OF own1, of "''Pod''" "Some annotatedNamespace"]
  note t2 = effectiveAnnotation_resolution[OF own2, of "''Deployment''" "Some annotatedNamespace"]
  note t3 = effectiveAnnotation_resolution[OF own2, of "''Pod''" _ annotatedNamespace]
  note t4 = effectiveAnnotation_resolution[OF own1, of "''Pod''" "Some sampleNamespace"]
  from t4 have r: "effectiveAnnotation sampleConfig ''Pod'' (Pod.ObjectMeta samplePod)
                     (Some sampleNamespace) = Some sampleAnnotation"
    using ne by simp
  from t4 have "AdmissionRequest.Operation samplePodRequest = ''CREATE'' \<and>
      Kind_Kind samplePodRequest = ''Pod'' \<and>
      unmarshal samplePlatform samplePodRequest =
        Inr (Some (Pod.ObjectMeta samplePod, Pod.Spec samplePod), []) \<and>
      Some sampleNamespace =
        fst (namespaces_Get samplePlatform (AdmissionRequest.Namespace samplePodRequest)) \<longrightarrow>
      (case effectiveAnnotation sampleConfig ''Pod'' (Pod.ObjectMeta samplePod) (Some sampleNamespace) of
         None \<Rightarrow> fst (Review sampleCrypto samplePlatform sampleConfig samplePodRequest) =
                   Inr (allowedUnmodified samplePodRequest)
       | Some a \<Rightarrow>
           if a = [] then fst (Review sampleCrypto samplePlatform sampleConfig samplePodRequest) =
                            Inr (allowedUnmodified samplePodRequest)
           else fst (Review sampleCrypto samplePlatform sampleConfig samplePodRequest) =
                  fst (Review_patch sampleCrypto samplePlatform sampleConfig (resp0 samplePodRequest)
                         (reviewPath samplePodRequest) (Pod.ObjectMeta samplePod) (Pod.Spec samplePod)
                         (Some sampleNamespace) a))"
    by blast
  with req ns sample_unmarshal r ne
  have rv: "fst (Review sampleCrypto samplePlatform sampleConfig samplePodRequest) =
     fst (Review_patch sampleCrypto samplePlatform sampleConfig (resp0 samplePodRequest)
            (reviewPath samplePodRequest) (Pod.ObjectMeta samplePod) (Pod.Spec samplePod)
            (Some sampleNamespace) sampleAnnotation)"
    by simp
  from t1 t2 t3 ne nsa rv show ?thesis
    by simp
qed

subsection \<open>Rejected views\<close>

lemma unmarshal_apps:
  assumes "Kind_Kind req \<in> {''Deployment'', ''DaemonSet'', ''StatefulSet'', ''ReplicaSet''}"
    and "json_Unmarshal_apps k (Kind_Kind req) (Object_Raw req) = Inr obj"
  shows "unmarshal k req =
     (case postProcessPodMeta (PodTemplateSpec.ObjectMeta (Spec_Template obj))
             (Some (appsv1_Object.ObjectMeta obj)) (Kind_Kind req) of
        Inl p \<Rightarrow> Inl p
      | Inr ((m, ok), evs) \<Rightarrow>
          Inr (if ok then Some (m, PodTemplateSpec.Spec (Spec_Template obj)) else None, evs))"
  using assms by (auto simp: unmarshal_def)

text \<open>
  C5. A CREATE request of kind ReplicaSet that decodes to an object with an owner
  reference of kind Deployment is allowed with no patch, whatever the annotations of
  the object, of its pod template or of the namespace.
\<close>

theorem Review_ReplicaSet_owned_by_Deployment:
  assumes "AdmissionRequest.Operation req = ''CREATE''"
    and "Kind_Kind req = ''ReplicaSet''"
    and "json_Unmarshal_apps k ''ReplicaSet'' (Object_Raw req) = Inr obj"
    and "\<exists>ref \<in> set (OwnerReferences (appsv1_Object.ObjectMeta obj)). Kind ref = ''Deployment''"
  shows "fst (Review x k cfg req) =
           Inr \<lparr>AdmissionResponse.UID = AdmissionRequest.UID req, Allowed = True,
                Result = None, Patch = None, PatchType = None\<rparr>"
proof -
  from assms(4) have owned: "ownedByDeployment (OwnerReferences (appsv1_Object.ObjectMeta obj))"
    by (simp add: ownedByDeployment_iff)
  have kind: "Kind_Kind req \<in> {''Deployment'', ''DaemonSet'', ''StatefulSet'', ''ReplicaSet''}"
    using assms(2) by simp
  have "\<exists>evs. unmarshal k req = Inr (None, evs)"
    using owned assms(2,3)
    by (simp add: unmarshal_apps[OF kind, of k obj] postProcessPodMeta_eq)
  then obtain evs where u: "unmarshal k req = Inr (None, evs)" ..
  show ?thesis
    by (simp add: Review_create[OF assms(1) u] allowedUnmodified_def)
qed

theorem Review_ReplicaSet_owned_by_Deployment_witness:
  "AdmissionRequest.Operation sampleReplicaSetRequest = ''CREATE'' \<and>
   Kind_Kind sampleReplicaSetRequest = ''ReplicaSet'' \<and>
   json_Unmarshal_apps samplePlatform ''ReplicaSet'' (Object_Raw sampleReplicaSetRequest) =
     Inr sampleReplicaSet \<and>
   list_ex (\<lambda>ref. Kind ref = ''Deployment'')
     (OwnerReferences (appsv1_Object.ObjectMeta sampleReplicaSet)) \<and>
   mapGet (ObjectMeta.Annotations (appsv1_Object.ObjectMeta sampleReplicaSet))
     (Annotation sampleConfig) = sampleAnnotation \<and>
   fst (Review sampleCrypto samplePlatform sampleConfig sampleReplicaSetRequest) =
     Inr \<lparr>AdmissionResponse.UID = ''u2'', Allowed = True,
          Result = None, Patch = None, PatchType = None\<rparr>"
proof -
  have h1: "AdmissionRequest.Operation sampleReplicaSetRequest = ''CREATE''"
    and h2: "Kind_Kind sampleReplicaSetRequest = ''ReplicaSet''"
    and h3: "json_Unmarshal_apps samplePlatform ''ReplicaSet'' (Object_Raw sampleReplicaSetRequest) =
       Inr sampleReplicaSet"
    by (simp_all add: sampleReplicaSetRequest_def samplePlatform_def)
  have h4: "\<exists>ref \<in> set (OwnerReferences (appsv1_Object.ObjectMeta sampleReplicaSet)).
              Kind ref = ''Deployment''"
    by (simp add: sampleReplicaSet_def)
  have a: "mapGet (ObjectMeta.Annotations (appsv1_Object.ObjectMeta sampleReplicaSet))
     (Annotation sampleConfig) = sampleAnnotation"
    by (simp add: sampleReplicaSet_def sampleConfig_def mapGet_def)
  from Review_ReplicaSet_owned_by_Deployment[OF h1 h2 h3 h4, of sampleCrypto sampleConfig]
  show ?thesis
    using h1 h2 h3 h4 a by (simp add: list_ex_iff sampleReplicaSetRequest_def)
qed


text \<open>
  C6. For a CREATE request of one of the four wrapper kinds that decodes: when the pod
  template's metadata has an annotations map, the view is rejected with the anomaly
  logged and the request is allowed with no patch; when it has none, the wrapper's own
  annotations become the pod template's annotations (the view is still rejected for a
  ReplicaSet owned by a Deployment), and metadata that has received a map this way is
  rejected by a second application, so the injection happens once.
\<close>

theorem wrapper_annotations_injected_once:
  assumes "AdmissionRequest.Operation req = ''CREATE''"
    and "Kind_Kind req \<in> {''Deployment'', ''DaemonSet'', ''StatefulSet'', ''ReplicaSet''}"
    and "json_Unmarshal_apps k (Kind_Kind req) (Object_Raw req) = Inr obj"
    and "tm = PodTemplateSpec.ObjectMeta (Spec_Template obj)"
    and "wm = appsv1_Object.ObjectMeta obj"
  shows "(ObjectMeta.Annotations tm \<noteq> None \<longrightarrow>
            unmarshal k req = Inr (None, [LogError malformedLine]) \<and>
            fst (Review x k cfg req) =
              Inr \<lparr>AdmissionResponse.UID = AdmissionRequest.UID req, Allowed = True,
                   Result = None, Patch = None, PatchType = None\<rparr>) \<and>
         (ObjectMeta.Annotations tm = None \<longrightarrow>
            postProcessPodMeta tm (Some wm) (Kind_Kind req) =
              Inr (((withLabels tm)\<lparr>ObjectMeta.Annotations := ObjectMeta.Annotations wm\<rparr>,
                    \<not> (Kind_Kind req = ''ReplicaSet'' \<and> ownedByDeployment (OwnerReferences wm))),
                   []) \<and>
            unmarshal k req =
              Inr (if Kind_Kind req = ''ReplicaSet'' \<and> ownedByDeployment (OwnerReferences wm)
                   then None
                   else Some ((withLabels tm)\<lparr>ObjectMeta.Annotations := ObjectMeta.Annotations wm\<rparr>,
                              PodTemplateSpec.Spec (Spec_Template obj)),
                   [])) \<and>
         (ObjectMeta.Annotations tm = None \<and> ObjectMeta.Annotations wm \<noteq> None \<longrightarrow>
            postProcessPodMeta ((withLabels tm)\<lparr>ObjectMeta.Annotations := ObjectMeta.Annotations wm\<rparr>)
                (Some wm) (Kind_Kind req) =
              Inr (((withLabels tm)\<lparr>ObjectMeta.Annotations := ObjectMeta.Annotations wm\<rparr>, False),
                   [LogError malformedLine]))"
proof -
  have notPod: "Kind_Kind req \<noteq> ''Pod''"
    using assms(2) by auto
  have um: "unmarshal k req =
     (case postProcessPodMeta tm (Some wm) (Kind_Kind req) of
        Inl p \<Rightarrow> Inl p
      | Inr ((m, ok), evs) \<Rightarrow>
          Inr (if ok then Some (m, PodTemplateSpec.Spec (Spec_Template obj)) else None, evs))"
    unfolding assms(4,5) by (rule unmarshal_apps[OF assms(2,3)])
  have present: "unmarshal k req = Inr (None, [LogError malformedLine])"
    if "ObjectMeta.Annotations tm \<noteq> None"
    using that notPod
    by (simp add: um postProcessPodMeta_eq)
  have absent: "postProcessPodMeta tm (Some wm) (Kind_Kind req) =
              Inr (((withLabels tm)\<lparr>ObjectMeta.Annotations := ObjectMeta.Annotations wm\<rparr>,
                    \<not> (Kind_Kind req = ''ReplicaSet'' \<and> ownedByDeployment (OwnerReferences wm))),
                   [])"
    if "ObjectMeta.Annotations tm = None"
    using that notPod
    by (simp add: postProcessPodMeta_eq)
  have again: "postProcessPodMeta ((withLabels tm)\<lparr>ObjectMeta.Annotations := ObjectMeta.Annotations wm\<rparr>)
                (Some wm) (Kind_Kind req) =
              Inr (((withLabels tm)\<lparr>ObjectMeta.Annotations := ObjectMeta.Annotations wm\<rparr>, False),
                   [LogError malformedLine])"
    if "ObjectMeta.Annotations wm \<noteq> None"
    using that notPod
    by (auto simp: postProcessPodMeta_eq withLabels_def split: option.splits)
  show ?thesis
  proof (intro conjI impI)
    assume p: "ObjectMeta.Annotations tm \<noteq> None"
    show "unmarshal k req = Inr (None, [LogError malformedLine])"
      by (rule present[OF p])
    show "fst (Review x k cfg req) =
              Inr \<lparr>AdmissionResponse.UID = AdmissionRequest.UID req, Allowed = True,
                   Result = None, Patch = None, PatchType = None\<rparr>"
      by (simp add: Review_create[OF assms(1) present[OF p]] allowedUnmodified_def)
  next
    assume a: "ObjectMeta.Annotations tm = None"
    show "postProcessPodMeta tm (Some wm) (Kind_Kind req) =
              Inr (((withLabels tm)\<lparr>ObjectMeta.Annotations := ObjectMeta.Annotations wm\<rparr>,
                    \<not> (Kind_Kind req = ''ReplicaSet'' \<and> ownedByDeployment (OwnerReferences wm))),
                   [])"
      by (rule absent[OF a])
    show "unmarshal k req =
              Inr (if Kind_Kind req = ''ReplicaSet'' \<and> ownedByDeployment (OwnerReferences wm)
                   then None
                   else Some ((withLabels tm)\<lparr>ObjectMeta.Annotations := ObjectMeta.Annotations wm\<rparr>,
                              PodTemplateSpec.Spec (Spec_Template obj)),
                   [])"
      by (simp add: um absent[OF a])
  next
    assume "ObjectMeta.Annotations tm = None \<and> ObjectMeta.Annotations wm \<noteq> None"
    then show "postProcessPodMeta ((withLabels tm)\<lparr>ObjectMeta.Annotations := ObjectMeta.Annotations wm\<rparr>)
                (Some wm) (Kind_Kind req) =
              Inr (((withLabels tm)\<lparr>ObjectMeta.Annotations := ObjectMeta.Annotations wm\<rparr>, False),
                   [LogError malformedLine])"
      using again by simp
  qed
qed


theorem wrapper_annotations_injected_once_witness:
  "AdmissionRequest.Operation sampleTwiceRequest = ''CREATE'' \<and>
   ObjectMeta.Annotations (PodTemplateSpec.ObjectMeta (Spec_Template sampleAnnotatedTwice)) =
     Some [''team'' \<mapsto> ''a''] \<and>
   unmarshal samplePlatform sampleTwiceRequest = Inr (None, [LogError malformedLine]) \<and>
   fst (Review sampleCrypto samplePlatform sampleConfig sampleTwiceRequest) =
     Inr \<lparr>AdmissionResponse.UID = ''u4'', Allowed = True,
          Result = None, Patch = None, PatchType = None\<rparr> \<and>
   ObjectMeta.Annotations (PodTemplateSpec.ObjectMeta (Spec_Template sampleDeployment)) = None \<and>
   unmarshal samplePlatform sampleDeploymentRequest =
     Inr (Some (\<lparr>GenerateName = [], ObjectMeta.Labels = Some Map.empty,
                 Annotations = Some [''networkservicemesh.io'' \<mapsto> sampleAnnotation],
                 OwnerReferences = []\<rparr>,
                \<lparr>InitContainers = [], Containers = [], Volumes = []\<rparr>), []) \<and>
   postProcessPodMeta
     \<lparr>GenerateName = [], ObjectMeta.Labels = Some Map.empty,
      Annotations = Some [''networkservicemesh.io'' \<mapsto> sampleAnnotation],
      OwnerReferences = []\<rparr>
     (Some (appsv1_Object.ObjectMeta sampleDeployment)) ''Deployment'' =
     Inr ((\<lparr>GenerateName = [], ObjectMeta.Labels = Some Map.empty,
            Annotations = Some [''networkservicemesh.io'' \<mapsto> sampleAnnotation],
            OwnerReferences = []\<rparr>, False), [LogError malformedLine])"
proof -
  have a1: "AdmissionRequest.Operation sampleTwiceRequest = ''CREATE''"
    and a2: "Kind_Kind sampleTwiceRequest \<in> {''Deployment'', ''DaemonSet'', ''StatefulSet'', ''ReplicaSet''}"
    and a3: "json_Unmarshal_apps samplePlatform (Kind_Kind sampleTwiceRequest)
               (Object_Raw sampleTwiceRequest) = Inr sampleAnnotatedTwice"
    by (simp_all add: sampleTwiceRequest_def samplePlatform_def)
  have b1: "AdmissionRequest.Operation sampleDeploymentRequest = ''CREATE''"
    and b2: "Kind_Kind sampleDeploymentRequest \<in> {''Deployment'', ''DaemonSet'', ''StatefulSet'', ''ReplicaSet''}"
    and b3: "json_Unmarshal_apps samplePlatform (Kind_Kind sampleDeploymentRequest)
               (Object_Raw sampleDeploymentRequest) = Inr sampleDeployment"
    by (simp_all add: sampleDeploymentRequest_def samplePlatform_def)
  note t1 = wrapper_annotations_injected_once[OF a1 a2 a3 refl refl, of sampleCrypto sampleConfig]
  note t2 = wrapper_annotations_injected_once[OF b1 b2 b3 refl refl, of sampleCrypto sampleConfig]
  have p: "ObjectMeta.Annotations (PodTemplateSpec.ObjectMeta (Spec_Template sampleAnnotatedTwice)) =
     Some [''team'' \<mapsto> ''a'']"
    by (simp add: sampleAnnotatedTwice_def)
  have q: "ObjectMeta.Annotations (PodTemplateSpec.ObjectMeta (Spec_Template sampleDeployment)) = None"
    "ObjectMeta.Annotations (appsv1_Object.ObjectMeta sampleDeployment) =
       Some [''networkservicemesh.io'' \<mapsto> sampleAnnotation]"
    by (simp_all add: sampleDeployment_def)
  have w: "(withLabels (PodTemplateSpec.ObjectMeta (Spec_Template sampleDeployment)))
             \<lparr>ObjectMeta.Annotations := Some [''networkservicemesh.io'' \<mapsto> sampleAnnotation]\<rparr> =
           \<lparr>GenerateName = [], ObjectMeta.Labels = Some Map.empty,
            Annotations = Some [''networkservicemesh.io'' \<mapsto> sampleAnnotation],
            OwnerReferences = []\<rparr>"
    by (simp add: withLabels_def sampleDeployment_def)
  have s: "PodTemplateSpec.Spec (Spec_Template sampleDeployment) =
             \<lparr>InitContainers = [], Containers = [], Volumes = []\<rparr>"
    by (simp add: sampleDeployment_def)
  have kd: "Kind_Kind sampleDeploymentRequest = ''Deployment''"
    "AdmissionRequest.UID sampleTwiceRequest = ''u4''"
    by (simp_all add: sampleDeploymentRequest_def sampleTwiceRequest_def)
  from t1 p have r1: "unmarshal samplePlatform sampleTwiceRequest = Inr (None, [LogError malformedLine])"
    "fst (Review sampleCrypto samplePlatform sampleConfig sampleTwiceRequest) =
     Inr \<lparr>AdmissionResponse.UID = ''u4'', Allowed = True,
          Result = None, Patch = None, PatchType = None\<rparr>"
    by (simp_all add: kd)
  from t2 q have r2: "unmarshal samplePlatform sampleDeploymentRequest =
     Inr (Some (\<lparr>GenerateName = [], ObjectMeta.Labels = Some Map.empty,
                 Annotations = Some [''networkservicemesh.io'' \<mapsto> sampleAnnotation],
                 OwnerReferences = []\<rparr>,
                \<lparr>InitContainers = [], Containers = [], Volumes = []\<rparr>), [])"
    by (simp add: kd w s)
  from t2 q have r3: "postProcessPodMeta
     \<lparr>GenerateName = [], ObjectMeta.Labels = Some Map.empty,
      Annotations = Some [''networkservicemesh.io'' \<mapsto> sampleAnnotation],
      OwnerReferences = []\<rparr>
     (Some (appsv1_Object.ObjectMeta sampleDeployment)) ''Deployment'' =
     Inr ((\<lparr>GenerateName = [], ObjectMeta.Labels = Some Map.empty,
            Annotations = Some [''networkservicemesh.io'' \<mapsto> sampleAnnotation],
            OwnerReferences = []\<rparr>, False), [LogError malformedLine])"
    by (simp add: kd w)
  from a1 p r1 q(1) r2 r3 show ?thesis by simp
qed

subsection \<open>The namespace lookup\<close>

lemma parseResources_events: "filter isNamespaceGet (snd (parseResources k v)) = []"
  by (simp add: parseResources_def split: sum.splits)

lemma Review_patch_events:
  "filter isNamespaceGet (fst (snd (Review_patch x k cfg resp p podMeta spec namespace a))) = []"
proof -
  have "fst (snd (Review_patch x k cfg resp p podMeta spec namespace a)) = [] \<or>
        (\<exists>cfg' envVars. fst (snd (Review_patch x k cfg resp p podMeta spec namespace a)) =
           snd (parseResources k a))"
    by (auto simp: Review_patch_def createInitContainerPatch_def Let_def
        split: prod.splits sum.splits)
  then show ?thesis
    by (auto simp: parseResources_events)
qed

lemma Review_patch_events':
  "Review_patch x k cfg resp p podMeta spec namespace a = (r, evs, cfg') \<Longrightarrow>
   filter isNamespaceGet evs = []"
  using Review_patch_events[of x k cfg resp p podMeta spec namespace a] by simp

lemma unmarshal_events:
  "unmarshal k req = Inr (view, evs) \<Longrightarrow> filter isNamespaceGet evs = []"
  by (auto simp: unmarshal_def postProcessPodMeta_eq split: sum.splits if_splits)

lemma lookupEvents_filter:
  "filter isNamespaceGet (lookupEvents k req) = [NamespaceGet (AdmissionRequest.Namespace req)]"
  by (simp add: lookupEvents_def split: option.splits)

text \<open>
  C3, as the code has it. For every CREATE request \<open>Review\<close> sends exactly one namespace
  query, for the namespace of the request, whatever the declared kind and whether or
  not the workload carries its own annotation. What depends on the kind and on the
  workload's annotation is the use of the answer: when the workload has its own
  annotation or the kind is not Pod, the effective annotation is the same as with no
  namespace at all.
\<close>

theorem Review_namespace_lookup:
  "(AdmissionRequest.Operation req = ''CREATE'' \<longrightarrow>
      filter isNamespaceGet (fst (snd (Review x k cfg req))) =
        [NamespaceGet (AdmissionRequest.Namespace req)]) \<and>
   (mapGet (ObjectMeta.Annotations podMeta) (Annotation cfg) \<noteq> [] \<or> kind \<noteq> ''Pod'' \<longrightarrow>
      effectiveAnnotation cfg kind podMeta namespace = effectiveAnnotation cfg kind podMeta None)"
proof (intro conjI impI)
  assume c: "AdmissionRequest.Operation req = ''CREATE''"
  obtain view evs1 where u: "unmarshal k req = Inr (view, evs1)"
    using unmarshal_no_panic[of k req] by (cases "unmarshal k req") auto
  show "filter isNamespaceGet (fst (snd (Review x k cfg req))) =
        [NamespaceGet (AdmissionRequest.Namespace req)]"
    using unmarshal_events[OF u]
    by (auto simp: Review_create[OF c u] lookupEvents_filter dest: Review_patch_events'
        split: option.splits prod.splits)
next
  assume "mapGet (ObjectMeta.Annotations podMeta) (Annotation cfg) \<noteq> [] \<or> kind \<noteq> ''Pod''"
  then show "effectiveAnnotation cfg kind podMeta namespace = effectiveAnnotation cfg kind podMeta None"
    by (auto simp: effectiveAnnotation_def Let_def split: option.splits)
qed


subsection \<open>The patch of an admitted request\<close>

lemma addResources_loop_Resources:
  "(addResources_loop c kvs)\<lparr>Resources := r\<rparr> = c\<lparr>Resources := r\<rparr>"
  by (induction c kvs rule: addResources_loop.induct) (simp_all add: Let_def)

lemma addResources_Resources: "(addResources c pr)\<lparr>Resources := r\<rparr> = c\<lparr>Resources := r\<rparr>"
  by (simp add: addResources_def addResources_loop_Resources split: option.splits)

lemma initContainers_loop_eq:
  "initContainers_loop k cfg poolResources psaLevel envVars imgs cs =
     (if imgs = [] then Inr cs
      else case sidecarResources k cfg of
             Inl p \<Rightarrow> Inl p
           | Inr r \<Rightarrow> Inr (cs @ map (sidecar psaLevel envVars r) imgs))"
proof (induction imgs arbitrary: cs)
  case Nil
  then show ?case by simp
next
  case (Cons img imgs)
  show ?case
  proof (cases "sidecarResources k cfg")
    case (Inl p)
    then show ?thesis by (simp add: addResourcesLimits_def Let_def)
  next
    case (Inr r)
    then show ?thesis
      by (simp add: Cons.IH addResourcesLimits_def Let_def sidecar_def addResources_Resources)
  qed
qed

lemma containers_loop_eq:
  "containers_loop k cfg psaLevel envVars imgs cs =
     (if imgs = [] then Inr cs
      else case sidecarResources k cfg of
             Inl p \<Rightarrow> Inl p
           | Inr r \<Rightarrow> Inr (cs @ map (sidecar psaLevel envVars r) imgs))"
proof (induction imgs arbitrary: cs)
  case Nil
  then show ?case by simp
next
  case (Cons img imgs)
  show ?case
  proof (cases "sidecarResources k cfg")
    case (Inl p)
    then show ?thesis by (simp add: addResourcesLimits_def Let_def)
  next
    case (Inr r)
    then show ?thesis
      by (simp add: Cons.IH addResourcesLimits_def Let_def sidecar_def)
  qed
qed

lemma Review_patch_ok:
  assumes "GetOrResolveEnvs x cfg = (Inr es, cfg')"
    and "sidecarResources k cfg' = Inr R"
    and "ObjectMeta.Labels podMeta = Some m"
  shows "\<exists>ops. length ops = 4 \<and>
           Review_patch x k cfg resp p podMeta spec ns a =
             (case json_Marshal k ops of
                Inl err \<Rightarrow> (Inr (resp\<lparr>Result := Some \<lparr>Status = err\<rparr>\<rparr>),
                            snd (parseResources k a), cfg')
              | Inr bs \<Rightarrow> (Inr (allowed (resp\<lparr>Patch := Some bs,
                                                 PatchType := Some PatchTypeJSONPatch\<rparr>)),
                           snd (parseResources k a), cfg'))"
proof -
  obtain pr evs where pr: "parseResources k a = (pr, evs)"
    by (cases "parseResources k a") auto
  let ?env = "es @ [\<lparr>EnvVar.Name = NSURLEnvName cfg', Value = a, ValueFrom = None\<rparr>,
                    nsmNameEnv k podMeta]"
  let ?lvl = "psaLevelByNamespace ns"
  obtain op1 where o1: "createInitContainerPatch k cfg' p a (InitContainers spec) ?lvl ?env =
                          (Inr op1, evs)"
    by (cases "InitContainerImages cfg' = []")
       (simp_all add: createInitContainerPatch_def pr initContainers_loop_eq assms(2))
  obtain op2 where o2: "createContainerPatch k cfg' p (Containers spec) ?lvl ?env = Inr op2"
    by (cases "ContainerImages cfg' = []")
       (simp_all add: createContainerPatch_def containers_loop_eq assms(2))
  obtain op4 where o4: "createLabelPatch cfg' p (ObjectMeta.Labels podMeta) = Inr op4"
    by (simp add: createLabelPatch_def assms(3))
  have "Review_patch x k cfg resp p podMeta spec ns a =
             (case json_Marshal k [op1, op2, createVolumesPatch p (Volumes spec) ?lvl, op4] of
                Inl err \<Rightarrow> (Inr (resp\<lparr>Result := Some \<lparr>Status = err\<rparr>\<rparr>), evs, cfg')
              | Inr bs \<Rightarrow> (Inr (allowed (resp\<lparr>Patch := Some bs,
                                                 PatchType := Some PatchTypeJSONPatch\<rparr>)),
                           evs, cfg'))"
    by (simp add: Review_patch_def assms(1) o1 o2 o4 Let_def split: sum.splits)
  then show ?thesis
    using pr by (intro exI[of _ "[op1, op2, createVolumesPatch p (Volumes spec) ?lvl, op4]"])
      (simp split: sum.splits)
qed

lemma Review_create_patch:
  assumes "AdmissionRequest.Operation req = ''CREATE''"
    and "unmarshal k req = Inr (Some (podMeta, spec), evs1)"
    and "effectiveAnnotation cfg (Kind_Kind req) podMeta
           (fst (namespaces_Get k (AdmissionRequest.Namespace req))) = Some a"
    and "a \<noteq> []"
  shows "fst (Review x k cfg req) =
           fst (Review_patch x k cfg (resp0 req) (reviewPath req) podMeta spec
                  (fst (namespaces_Get k (AdmissionRequest.Namespace req))) a)"
    and "fst (snd (Review x k cfg req)) =
           evs1 @ lookupEvents k req @
           fst (snd (Review_patch x k cfg (resp0 req) (reviewPath req) podMeta spec
                  (fst (namespaces_Get k (AdmissionRequest.Namespace req))) a))"
  by (simp_all add: Review_create[OF assms(1,2)] assms(3,4) split: prod.splits)

lemma sample_sidecarResources:
  "sidecarResources samplePlatform cfg =
     Inr \<lparr>Limits = Some [''cpu'' \<mapsto> ParsedQuantity (SidecarLimitsCPU cfg),
                         ''memory'' \<mapsto> ParsedQuantity (SidecarLimitsMemory cfg)],
          Requests = Some [''cpu'' \<mapsto> ParsedQuantity (SidecarRequestsCPU cfg),
                           ''memory'' \<mapsto> ParsedQuantity (SidecarRequestsMemory cfg)]\<rparr>"
  by (simp add: sidecarResources_def resource_MustParse_def samplePlatform_def)

lemma sample_Review_events:
  "fst (snd (Review sampleCrypto samplePlatform sampleConfig samplePodRequest)) =
     [NamespaceGet ''ns1'']"
proof -
  have c: "AdmissionRequest.Operation samplePodRequest = ''CREATE''"
    by (simp add: samplePodRequest_def)
  have ns: "namespaces_Get samplePlatform name = (Some sampleNamespace, None)" for name
    by (simp add: samplePlatform_def)
  have k: "Kind_Kind samplePodRequest = ''Pod''"
    and n: "AdmissionRequest.Namespace samplePodRequest = ''ns1''"
    by (simp_all add: samplePodRequest_def)
  have ne: "sampleAnnotation \<noteq> []" by (simp add: sampleAnnotation_def)
  have e: "effectiveAnnotation sampleConfig (Kind_Kind samplePodRequest)
      (Pod.ObjectMeta samplePod)
      (fst (namespaces_Get samplePlatform (AdmissionRequest.Namespace samplePodRequest))) =
      Some sampleAnnotation"
    by (simp add: ns k sample_effective)
  have l: "ObjectMeta.Labels (Pod.ObjectMeta samplePod) = Some [''app'' \<mapsto> ''demo'']"
    by (simp add: samplePod_def)
  have jm: "json_Marshal samplePlatform ops = Inr ''PATCH''" for ops
    by (simp add: samplePlatform_def)
  from Review_patch_ok[OF sample_envs sample_sidecarResources l, of "resp0 samplePodRequest"
      "reviewPath samplePodRequest" "Pod.Spec samplePod" "Some sampleNamespace" sampleAnnotation]
  have "fst (snd (Review_patch sampleCrypto samplePlatform sampleConfig (resp0 samplePodRequest)
               (reviewPath samplePodRequest) (Pod.ObjectMeta samplePod) (Pod.Spec samplePod)
               (Some sampleNamespace) sampleAnnotation)) = []"
    by (auto simp: sample_parseResources jm)
  then show ?thesis
    by (simp add: Review_create_patch(2)[OF c sample_unmarshal e ne] ns lookupEvents_def n)
qed

text \<open>
  C3, the claim as written fails: the sample Pod carries its own annotation, and
  \<open>Review\<close> queries the namespace all the same.
\<close>

theorem Review_namespace_lookup_counterexample:
  "AdmissionRequest.Operation samplePodRequest = ''CREATE'' \<and>
   unmarshal samplePlatform samplePodRequest =
     Inr (Some (Pod.ObjectMeta samplePod, Pod.Spec samplePod), []) \<and>
   mapGet (ObjectMeta.Annotations (Pod.ObjectMeta samplePod)) (Annotation sampleConfig) =
     sampleAnnotation \<and>
   sampleAnnotation \<noteq> [] \<and>
   fst (snd (Review sampleCrypto samplePlatform sampleConfig samplePodRequest)) =
     [NamespaceGet ''ns1'']"
proof -
  have "mapGet (ObjectMeta.Annotations (Pod.ObjectMeta samplePod)) (Annotation sampleConfig) =
     sampleAnnotation"
    by (simp add: samplePod_def sampleConfig_def mapGet_def)
  moreover have "sampleAnnotation \<noteq> []" by (simp add: sampleAnnotation_def)
  moreover have "AdmissionRequest.Operation samplePodRequest = ''CREATE''"
    by (simp add: samplePodRequest_def)
  ultimately show ?thesis
    using sample_unmarshal sample_Review_events by simp
qed

theorem Review_namespace_lookup_witness:
  "AdmissionRequest.Operation samplePodRequest = ''CREATE'' \<and>
   filter isNamespaceGet
     (fst (snd (Review sampleCrypto samplePlatform sampleConfig samplePodRequest))) =
     [NamespaceGet ''ns1''] \<and>
   mapGet (ObjectMeta.Annotations (Pod.ObjectMeta samplePod)) (Annotation sampleConfig) \<noteq> [] \<and>
   effectiveAnnotation sampleConfig ''Pod'' (Pod.ObjectMeta samplePod) (Some annotatedNamespace) =
     effectiveAnnotation sampleConfig ''Pod'' (Pod.ObjectMeta samplePod) None \<and>
   effectiveAnnotation sampleConfig ''Deployment'' bareMeta (Some annotatedNamespace) =
     effectiveAnnotation sampleConfig ''Deployment'' bareMeta None"
proof -
  have c: "AdmissionRequest.Operation samplePodRequest = ''CREATE''"
    and n: "AdmissionRequest.Namespace samplePodRequest = ''ns1''"
    by (simp_all add: samplePodRequest_def)
  have own: "mapGet (ObjectMeta.Annotations (Pod.ObjectMeta samplePod)) (Annotation sampleConfig) \<noteq> []"
    by (simp add: samplePod_def sampleConfig_def mapGet_def sampleAnnotation_def)
  note t1 = Review_namespace_lookup[of samplePodRequest sampleCrypto samplePlatform sampleConfig
      "Pod.ObjectMeta samplePod" "''Pod''" "Some annotatedNamespace"]
  note t2 = Review_namespace_lookup[of samplePodRequest sampleCrypto samplePlatform sampleConfig
      bareMeta "''Deployment''" "Some annotatedNamespace"]
  from t1 t2 c n own show ?thesis by simp
qed

subsection \<open>Resource limits of the init containers\<close>

text \<open>
  C2. The sample annotation names the pool \<open>p1\<close> twice. \<open>parseResources\<close> counts 2 for
  \<open>p1\<close>, and \<open>addResources\<close> stores that limit in the new init container; the
  \<open>addResourcesLimits\<close> that follows assigns the whole of \<open>Resources\<close>, so the container
  in the emitted operation has the configured \<open>cpu\<close> and \<open>memory\<close> limits and no limit
  named \<open>p1\<close>.
\<close>

theorem createInitContainerPatch_drops_pool_limits:
  "parseResources samplePlatform sampleAnnotation = (Some [(''p1'', 2)], []) \<and>
   Limits (Resources (addResources (addVolumeMounts (newContainer ''nsm/init:v1'' []))
                        (Some [(''p1'', 2)]))) =
     Some [''p1'' \<mapsto> DecimalQuantity 2] \<and>
   createInitContainerPatch samplePlatform sampleConfig ''/'' sampleAnnotation [] ''privileged'' [] =
     (Inr \<lparr>Operation = ''add'', Path = ''/spec/initContainers'',
           Value = ContainersValue
             [\<lparr>Container.Name = ''init'', Image = ''nsm/init:v1'', Env = [],
               ImagePullPolicy = ''IfNotPresent'',
               VolumeMounts =
                 [\<lparr>VolumeMount.Name = ''spire-agent-socket'', MountPath = ''/run/spire/sockets'',
                   VolumeMount.ReadOnly = True\<rparr>,
                  \<lparr>VolumeMount.Name = ''nsm-socket'', MountPath = ''/var/lib/networkservicemesh'',
                   VolumeMount.ReadOnly = True\<rparr>],
               Resources =
                 \<lparr>Limits = Some [''cpu'' \<mapsto> ParsedQuantity ''200m'',
                                   ''memory'' \<mapsto> ParsedQuantity ''80Mi''],
                  Requests = Some [''cpu'' \<mapsto> ParsedQuantity ''100m'',
                                     ''memory'' \<mapsto> ParsedQuantity ''40Mi'']\<rparr>,
               SecurityContext = None\<rparr>]\<rparr>, []) \<and>
   [''cpu'' \<mapsto> ParsedQuantity ''200m'', ''memory'' \<mapsto> ParsedQuantity ''80Mi''] ''p1'' = None"
proof -
  have n: "nameOf ''nsm/init:v1'' = ''init''"
    by (simp add: nameOf_def path_Base_def stripTrailingSlashes_def strings_Split.simps)
  have p: "path_Join [''/'', ''spec'', ''initContainers''] = ''/spec/initContainers''"
    by code_simp
  have a: "Limits (Resources (addResources (addVolumeMounts (newContainer ''nsm/init:v1'' []))
                        (Some [(''p1'', 2)]))) =
     Some [''p1'' \<mapsto> DecimalQuantity 2]"
    by (simp add: addResources_def addVolumeMounts_def newContainer_def Let_def)
  have s: "sidecarResources samplePlatform sampleConfig =
     Inr \<lparr>Limits = Some [''cpu'' \<mapsto> ParsedQuantity ''200m'',
                         ''memory'' \<mapsto> ParsedQuantity ''80Mi''],
          Requests = Some [''cpu'' \<mapsto> ParsedQuantity ''100m'',
                           ''memory'' \<mapsto> ParsedQuantity ''40Mi'']\<rparr>"
    by (simp add: sample_sidecarResources) (simp add: sampleConfig_def)
  have i: "InitContainerImages sampleConfig = [''nsm/init:v1'']"
    by (simp add: sampleConfig_def)
  have c: "createInitContainerPatch samplePlatform sampleConfig ''/'' sampleAnnotation [] ''privileged'' [] =
     (Inr \<lparr>Operation = ''add'', Path = ''/spec/initContainers'',
           Value = ContainersValue
             [\<lparr>Container.Name = ''init'', Image = ''nsm/init:v1'', Env = [],
               ImagePullPolicy = ''IfNotPresent'',
               VolumeMounts =
                 [\<lparr>VolumeMount.Name = ''spire-agent-socket'', MountPath = ''/run/spire/sockets'',
                   VolumeMount.ReadOnly = True\<rparr>,
                  \<lparr>VolumeMount.Name = ''nsm-socket'', MountPath = ''/var/lib/networkservicemesh'',
                   VolumeMount.ReadOnly = True\<rparr>],
               Resources =
                 \<lparr>Limits = Some [''cpu'' \<mapsto> ParsedQuantity ''200m'',
                                   ''memory'' \<mapsto> ParsedQuantity ''80Mi''],
                  Requests = Some [''cpu'' \<mapsto> ParsedQuantity ''100m'',
                                     ''memory'' \<mapsto> ParsedQuantity ''40Mi'']\<rparr>,
               SecurityContext = None\<rparr>]\<rparr>, [])"
    by (simp add: createInitContainerPatch_def sample_parseResources initContainers_loop_eq i s
        sidecar_def withSecurityContext_def LevelRestricted_def addVolumeMounts_def
        newContainer_def n p jsonpatch_NewOperation_def PullIfNotPresent_def
        spireAgentSocket_def nsmSocket_def)
  show ?thesis
    using sample_parseResources a c by simp
qed

subsection \<open>The self-signed certificate\<close>

lemma pem_EncodeToMemory_nonempty: "pem_EncodeToMemory x typ b \<noteq> []"
  by (simp add: pem_EncodeToMemory_def)

lemma selfSigned_Inr:
  assumes "selfSignedInMemoryCertificate x c = (Inr kp, c1)"
  shows "\<exists>privateKey certRaw.
           rsa_GenerateKey x 2048 = Inr privateKey \<and>
           x509_CreateCertificate x (selfSigned_template x c) (selfSigned_template x c) privateKey =
             Inr certRaw \<and>
           tls_X509KeyPair x (pemCertOf x certRaw) (pemKeyOf x privateKey) = Inr kp \<and>
           c1 = c\<lparr>caBundle := pemCertOf x certRaw\<rparr>"
proof -
  note d = selfSignedInMemoryCertificate_def Let_def pemCertOf_def[symmetric] pemKeyOf_def[symmetric]
  obtain privateKey where g: "rsa_GenerateKey x 2048 = Inr privateKey"
    using assms by (cases "rsa_GenerateKey x 2048") (simp_all add: d)
  obtain certRaw where cc:
    "x509_CreateCertificate x (selfSigned_template x c) (selfSigned_template x c) privateKey =
       Inr certRaw"
    using assms g
    by (cases "x509_CreateCertificate x (selfSigned_template x c) (selfSigned_template x c) privateKey")
       (simp_all add: d)
  obtain res where kp: "tls_X509KeyPair x (pemCertOf x certRaw) (pemKeyOf x privateKey) = Inr res"
    using assms g cc
    by (cases "tls_X509KeyPair x (pemCertOf x certRaw) (pemKeyOf x privateKey)")
       (simp_all add: d)
  from assms g cc kp have "res = kp" "c1 = c\<lparr>caBundle := pemCertOf x certRaw\<rparr>"
    by (simp_all add: d)
  with g cc kp show ?thesis by blast
qed

lemma initializeEnvs_frame:
  assumes "initializeEnvs c = (p, c1)"
  shows "WebhookMode c1 = WebhookMode c \<and> CertFilePath c1 = CertFilePath c \<and>
         KeyFilePath c1 = KeyFilePath c \<and> ServiceName c1 = ServiceName c \<and>
         Config.Namespace c1 = Config.Namespace c \<and> caBundle c1 = caBundle c"
  using assms by (auto simp: initializeEnvs_def split: prod.splits option.splits)

lemma selfSigned_template_cong:
  "ServiceName c1 = ServiceName c \<Longrightarrow> Config.Namespace c1 = Config.Namespace c \<Longrightarrow>
   selfSigned_template x c1 = selfSigned_template x c"
  by (simp add: selfSigned_template_def)

text \<open>
  C9. In self-registering mode without both file paths, when the first call of
  \<open>GetOrResolveCertificate\<close> returns a key pair: the certificate was created from a
  template whose DNS names are \<open>ServiceName.Namespace\<close> and \<open>ServiceName.Namespace.svc\<close>;
  the key pair is what \<open>tls.X509KeyPair\<close> made of the PEM certificate and the PEM key;
  and the CA bundle kept in the configuration, which \<open>GetOrResolveCABundle\<close> returns from
  then on, is the PEM certificate. Key generation, certificate creation, base64 and
  the key-pair parser are the library's and are parameters here.
\<close>

theorem selfSigned_certificate:
  assumes "WebhookMode c = SelfregisterMode"
    and "\<not> IsExistingCertificatesUsed c"
    and "\<not> once c"
    and "GetOrResolveCertificate x c = (Inr kp, c')"
  shows "\<exists>privateKey certRaw.
           rsa_GenerateKey x 2048 = Inr privateKey \<and>
           x509_CreateCertificate x (selfSigned_template x c) (selfSigned_template x c) privateKey =
             Inr certRaw \<and>
           ServiceName c @ ''.'' @ Config.Namespace c \<in> set (DNSNames (selfSigned_template x c)) \<and>
           ServiceName c @ ''.'' @ Config.Namespace c @ ''.svc''
             \<in> set (DNSNames (selfSigned_template x c)) \<and>
           tls_X509KeyPair x (pemCertOf x certRaw) (pemKeyOf x privateKey) = Inr kp \<and>
           caBundle c' = pemCertOf x certRaw \<and>
           GetOrResolveCABundle x c' = (Inr (pemCertOf x certRaw), c')"
proof -
  obtain p0 c0 where o0: "once_Do (initialize x) c = (p0, c0)"
    by (cases "once_Do (initialize x) c") auto
  with assms(4) have p0: "p0 = None" and kp: "kp = cert c0" and c': "c' = c0"
    by (cases p0; simp add: GetOrResolveCertificate_def)+
  obtain p3 c3 where i0: "initialize x c = (p3, c3)"
    by (cases "initialize x c") auto
  with o0 p0 assms(3) have p3: "p3 = None" and c0: "c0 = c3\<lparr>once := True\<rparr>"
    by (simp_all add: once_Do_def)
  obtain p1 c1 where e0: "initializeEnvs c = (p1, c1)"
    by (cases "initializeEnvs c") auto
  with i0 p3 have p1: "p1 = None"
    by (cases p1) (simp_all add: initialize_def)
  obtain p2 c2 where ce0: "initializeCert x c1 = (p2, c2)"
    by (cases "initializeCert x c1") auto
  with i0 p3 e0 p1 have p2: "p2 = None"
    by (cases p2) (simp_all add: initialize_def)
  from i0 p3 e0 p1 ce0 p2 have cb: "initializeCABundle x c2 = (None, c3)"
    by (simp add: initialize_def)
  from e0 p1 have e: "initializeEnvs c = (None, c1)" by simp
  from ce0 p2 have ce: "initializeCert x c1 = (None, c2)" by simp
  note f = initializeEnvs_frame[OF e]
  from f assms(1,2) have m1: "WebhookMode c1 = SelfregisterMode" "\<not> IsExistingCertificatesUsed c1"
    by (simp_all add: IsExistingCertificatesUsed_def)
  obtain rs c1' where s0: "selfSignedInMemoryCertificate x c1 = (rs, c1')"
    by (cases "selfSignedInMemoryCertificate x c1") auto
  with ce m1 obtain k where rs: "rs = Inr k" and c2: "c2 = c1'\<lparr>cert := k\<rparr>"
    by (cases rs) (auto simp: initializeCert_def)
  from s0 rs have s: "selfSignedInMemoryCertificate x c1 = (Inr k, c1')" by simp
  from selfSigned_Inr[OF s] obtain privateKey certRaw where
    g: "rsa_GenerateKey x 2048 = Inr privateKey"
    and cc: "x509_CreateCertificate x (selfSigned_template x c1) (selfSigned_template x c1) privateKey =
             Inr certRaw"
    and kpair: "tls_X509KeyPair x (pemCertOf x certRaw) (pemKeyOf x privateKey) = Inr k"
    and c1': "c1' = c1\<lparr>caBundle := pemCertOf x certRaw\<rparr>"
    by blast
  have t: "selfSigned_template x c1 = selfSigned_template x c"
    by (rule selfSigned_template_cong) (simp_all add: f)
  have ne: "length (pemCertOf x certRaw) \<noteq> 0"
    by (simp add: pemCertOf_def pem_EncodeToMemory_nonempty)
  have "WebhookMode c2 = SelfregisterMode" "caBundle c2 = pemCertOf x certRaw"
    by (simp_all add: c2 c1' m1)
  with cb ne have c3: "c3 = c2"
    by (simp add: initializeCABundle_def)
  have cab: "caBundle c' = pemCertOf x certRaw"
    by (simp add: c' c0 c3 c2 c1')
  have certk: "kp = k"
    by (simp add: kp c0 c3 c2)
  have fired: "once c'"
    by (simp add: c' c0)
  have dns: "DNSNames (selfSigned_template x c) =
               [ServiceName c @ ''.'' @ Config.Namespace c,
                ServiceName c @ ''.'' @ Config.Namespace c @ ''.svc'']"
    by (simp add: selfSigned_template_def Let_def)
  have again: "GetOrResolveCABundle x c' = (Inr (pemCertOf x certRaw), c')"
    using fired cab by (simp add: GetOrResolveCABundle_def once_Do_def)
  show ?thesis
    using g cc kpair cab again
    by (intro exI[of _ privateKey] exI[of _ certRaw]) (simp add: t dns certk)
qed

theorem selfSigned_certificate_witness:
  "WebhookMode selfregisterConfig = SelfregisterMode \<and>
   \<not> IsExistingCertificatesUsed selfregisterConfig \<and>
   \<not> once selfregisterConfig \<and>
   fst (GetOrResolveCertificate sampleCrypto selfregisterConfig) =
     Inr \<lparr>Certificate = [pemCertOf sampleCrypto ''DER''], PrivateKey = Some (RSAKey 7)\<rparr> \<and>
   DNSNames (selfSigned_template sampleCrypto selfregisterConfig) = [''hook.nsm'', ''hook.nsm.svc''] \<and>
   caBundle (snd (GetOrResolveCertificate sampleCrypto selfregisterConfig)) =
     pemCertOf sampleCrypto ''DER''"
proof -
  have h1: "WebhookMode selfregisterConfig = SelfregisterMode"
    and h2: "\<not> IsExistingCertificatesUsed selfregisterConfig"
    and h3: "\<not> once selfregisterConfig"
    by (simp_all add: selfregisterConfig_def sampleConfig_def IsExistingCertificatesUsed_def)
  have ev: "fst (GetOrResolveCertificate sampleCrypto selfregisterConfig) =
     Inr \<lparr>Certificate = [pemCertOf sampleCrypto ''DER''], PrivateKey = Some (RSAKey 7)\<rparr>"
    by (simp add: GetOrResolveCertificate_def once_Do_def initialize_def initializeEnvs_def
        initializeCert_def initializeCABundle_def IsExistingCertificatesUsed_def
        selfSignedInMemoryCertificate_def selfregisterConfig_def sampleConfig_def
        sampleCrypto_def Let_def strings_Split.simps pemCertOf_def pem_EncodeToMemory_def)
  then have h4: "GetOrResolveCertificate sampleCrypto selfregisterConfig =
     (Inr \<lparr>Certificate = [pemCertOf sampleCrypto ''DER''], PrivateKey = Some (RSAKey 7)\<rparr>,
      snd (GetOrResolveCertificate sampleCrypto selfregisterConfig))"
    by (simp add: prod_eq_iff)
  have g: "rsa_GenerateKey sampleCrypto 2048 = Inr (RSAKey 7)"
    and cc: "x509_CreateCertificate sampleCrypto t t' key = Inr ''DER''" for t t' key
    by (simp_all add: sampleCrypto_def)
  from selfSigned_certificate[OF h1 h2 h3 h4] g cc
  have b: "caBundle (snd (GetOrResolveCertificate sampleCrypto selfregisterConfig)) =
     pemCertOf sampleCrypto ''DER''"
    by auto
  have d: "DNSNames (selfSigned_template sampleCrypto selfregisterConfig) =
             [''hook.nsm'', ''hook.nsm.svc'']"
    by (simp add: selfSigned_template_def Let_def selfregisterConfig_def sampleConfig_def)
  from h1 h2 h3 ev b d show ?thesis by simp
qed


lemma selfSigned_returns:
  assumes "rsa_GenerateKey x 2048 = Inr privateKey"
    and "x509_CreateCertificate x (selfSigned_template x c) (selfSigned_template x c) privateKey =
           Inr certRaw"
    and "tls_X509KeyPair x (pemCertOf x certRaw) (pemKeyOf x privateKey) = Inr kp"
  shows "selfSignedInMemoryCertificate x c = (Inr kp, c\<lparr>caBundle := pemCertOf x certRaw\<rparr>)"
  using assms
  by (simp add: selfSignedInMemoryCertificate_def Let_def pemCertOf_def[symmetric]
      pemKeyOf_def[symmetric])


subsection \<open>The operations of a patched response\<close>

lemma Review_patch_ops:
  assumes "fst (Review_patch x k cfg resp p podMeta spec ns a) = Inr r"
  shows "\<exists>op1 op2 op4.
           (case json_Marshal k [op1, op2, createVolumesPatch p (Volumes spec) (psaLevelByNamespace ns), op4] of
              Inl err \<Rightarrow> r = resp\<lparr>Result := Some \<lparr>Status = err\<rparr>\<rparr>
            | Inr bs \<Rightarrow> r = allowed (resp\<lparr>Patch := Some bs, PatchType := Some PatchTypeJSONPatch\<rparr>))"
proof -
  obtain res cfg' where g: "GetOrResolveEnvs x cfg = (res, cfg')"
    by (cases "GetOrResolveEnvs x cfg") auto
  let ?lvl = "psaLevelByNamespace ns"
  from assms g obtain es where es: "res = Inr es"
    by (cases res) (auto simp: Review_patch_def)
  let ?env = "es @ [\<lparr>EnvVar.Name = NSURLEnvName cfg', Value = a, ValueFrom = None\<rparr>,
                    nsmNameEnv k podMeta]"
  obtain r1 evs where c1: "createInitContainerPatch k cfg' p a (InitContainers spec) ?lvl ?env = (r1, evs)"
    by (cases "createInitContainerPatch k cfg' p a (InitContainers spec) ?lvl ?env") auto
  from assms g es c1 obtain op1 where op1: "r1 = Inr op1"
    by (cases r1) (auto simp: Review_patch_def Let_def)
  from assms g es c1 op1 obtain op2 where
    op2: "createContainerPatch k cfg' p (Containers spec) ?lvl ?env = Inr op2"
    by (cases "createContainerPatch k cfg' p (Containers spec) ?lvl ?env")
       (auto simp: Review_patch_def Let_def)
  from assms g es c1 op1 op2 obtain op4 where
    op4: "createLabelPatch cfg' p (ObjectMeta.Labels podMeta) = Inr op4"
    by (cases "createLabelPatch cfg' p (ObjectMeta.Labels podMeta)")
       (auto simp: Review_patch_def Let_def)
  from assms g es c1 op1 op2 op4
  have "case json_Marshal k [op1, op2, createVolumesPatch p (Volumes spec) ?lvl, op4] of
              Inl err \<Rightarrow> r = resp\<lparr>Result := Some \<lparr>Status = err\<rparr>\<rparr>
            | Inr bs \<Rightarrow> r = allowed (resp\<lparr>Patch := Some bs, PatchType := Some PatchTypeJSONPatch\<rparr>)"
    by (auto simp: Review_patch_def Let_def split: sum.splits)
  then show ?thesis by blast
qed

lemma Review_patch_volumes:
  assumes "fst (Review_patch x k cfg (resp0 req) p podMeta spec ns a) = Inr r"
    and "Patch r = Some bs"
  shows "\<exists>op1 op2 op4.
           json_Marshal k [op1, op2, createVolumesPatch p (Volumes spec) (psaLevelByNamespace ns), op4] =
             Inr bs"
proof -
  from Review_patch_ops[OF assms(1)] obtain op1 op2 op4 where
    c: "case json_Marshal k [op1, op2, createVolumesPatch p (Volumes spec) (psaLevelByNamespace ns), op4] of
              Inl err \<Rightarrow> r = (resp0 req)\<lparr>Result := Some \<lparr>Status = err\<rparr>\<rparr>
            | Inr bs \<Rightarrow> r = allowed ((resp0 req)\<lparr>Patch := Some bs, PatchType := Some PatchTypeJSONPatch\<rparr>)"
    by blast
  show ?thesis
  proof (cases "json_Marshal k [op1, op2, createVolumesPatch p (Volumes spec) (psaLevelByNamespace ns), op4]")
    case (Inl err)
    with c assms(2) show ?thesis by (simp add: resp0_def)
  next
    case (Inr bs')
    with c assms(2) have "bs' = bs" by (simp add: resp0_def allowed_def)
    with Inr show ?thesis by blast
  qed
qed

lemma postProcessPodMeta_Labels:
  "postProcessPodMeta podMeta metaPtr kind = Inr ((m, ok), evs) \<Longrightarrow> ObjectMeta.Labels m \<noteq> None"
  by (auto simp: postProcessPodMeta_eq withLabels_fields split: if_splits option.splits)

lemma unmarshal_Labels:
  "unmarshal k req = Inr (Some (m, spec), evs) \<Longrightarrow> ObjectMeta.Labels m \<noteq> None"
  by (auto simp: unmarshal_def split: sum.splits if_splits dest: postProcessPodMeta_Labels)

lemma createVolumesPatch_cases:
  "createVolumesPatch p volumes psaLevel =
     volumesOperation p (volumes @ (if psaLevel \<noteq> ''privileged'' then csiVolumes else hostPathVolumes))"
  by (simp add: createVolumesPatch_def LevelPrivileged_def jsonpatch_NewOperation_def
      csiVolume_def hostPathVolume_def spireAgentSocket_def nsmSocket_def HostPathDirectory_def
      csiVolumes_def hostPathVolumes_def volumesOperation_def)

lemma psaLevelByNamespace_rejected:
  assumes "mapGet (ObjectMeta.Labels (corev1_Namespace.ObjectMeta ns)) ''pod-security.kubernetes.io/enforce''
             \<notin> {''privileged'', ''baseline'', ''restricted''}"
  shows "psaLevelByNamespace (Some ns) = ''privileged''"
  using psa_ParseLevel_Inl[OF assms]
  by (auto simp: psaLevelByNamespace_def LevelPrivileged_def EnforceLevelLabel_def)

lemma Review_patched:
  assumes "AdmissionRequest.Operation req = ''CREATE''"
    and "fst (Review x k cfg req) = Inr r"
    and "Patch r = Some bs"
  shows "\<exists>podMeta spec evs1 a.
           unmarshal k req = Inr (Some (podMeta, spec), evs1) \<and>
           effectiveAnnotation cfg (Kind_Kind req) podMeta
             (fst (namespaces_Get k (AdmissionRequest.Namespace req))) = Some a \<and> a \<noteq> [] \<and>
           fst (Review_patch x k cfg (resp0 req) (reviewPath req) podMeta spec
                  (fst (namespaces_Get k (AdmissionRequest.Namespace req))) a) = Inr r"
proof -
  obtain view evs1 where u: "unmarshal k req = Inr (view, evs1)"
    using unmarshal_no_panic[of k req] by (cases "unmarshal k req") auto
  note rc = Review_create[OF assms(1) u, of x cfg]
  show ?thesis
  proof (cases view)
    case None
    with rc assms(2,3) show ?thesis by (auto simp: allowedUnmodified_def)
  next
    case (Some v)
    obtain podMeta spec where v: "v = (podMeta, spec)" by (cases v) auto
    show ?thesis
    proof (cases "effectiveAnnotation cfg (Kind_Kind req) podMeta
             (fst (namespaces_Get k (AdmissionRequest.Namespace req)))")
      case None
      with rc Some v assms(2,3) show ?thesis by (auto simp: allowedUnmodified_def)
    next
      case (Some a)
      show ?thesis
      proof (cases "a = []")
        case True
        with rc \<open>view = Some v\<close> v Some assms(2,3) show ?thesis by (auto simp: allowedUnmodified_def)
      next
        case False
        with rc \<open>view = Some v\<close> v Some assms(2) u show ?thesis
          by (simp split: prod.splits)
      qed
    qed
  qed
qed

text \<open>
  Lines 128 to 146 of \<open>Review\<close>. A CREATE request with a view and a non-empty effective
  annotation, for which \<open>Review\<close> returns, has the response that the encoder's result on
  the four operations decides: the encoding as the patch of an allowed response, or the
  error as the status of a response that has no patch and whose \<open>Allowed\<close> keeps the
  value it was created with, since line 138 returns before line 145.
\<close>

lemma Review_serialisation_outcome:
  assumes "AdmissionRequest.Operation req = ''CREATE''"
    and "unmarshal k req = Inr (Some (podMeta, spec), evs1)"
    and "effectiveAnnotation cfg (Kind_Kind req) podMeta
           (fst (namespaces_Get k (AdmissionRequest.Namespace req))) = Some a"
    and "a \<noteq> []"
    and "fst (Review x k cfg req) = Inr r"
  shows "\<exists>op1 op2 op4.
           (case json_Marshal k
                   [op1, op2,
                    createVolumesPatch (reviewPath req) (Volumes spec)
                      (psaLevelByNamespace (fst (namespaces_Get k (AdmissionRequest.Namespace req)))),
                    op4] of
              Inl err \<Rightarrow>
                r = \<lparr>AdmissionResponse.UID = AdmissionRequest.UID req, Allowed = False,
                     Result = Some \<lparr>Status = err\<rparr>, Patch = None, PatchType = None\<rparr>
            | Inr bs \<Rightarrow>
                r = \<lparr>AdmissionResponse.UID = AdmissionRequest.UID req, Allowed = True,
                     Result = None, Patch = Some bs, PatchType = Some ''JSONPatch''\<rparr>)"
proof -
  from assms(5) have "fst (Review_patch x k cfg (resp0 req) (reviewPath req) podMeta spec
                        (fst (namespaces_Get k (AdmissionRequest.Namespace req))) a) = Inr r"
    by (simp add: Review_create_patch(1)[OF assms(1,2,3,4)])
  from Review_patch_ops[OF this] obtain op1 op2 op4 where
    c: "case json_Marshal k
               [op1, op2,
                createVolumesPatch (reviewPath req) (Volumes spec)
                  (psaLevelByNamespace (fst (namespaces_Get k (AdmissionRequest.Namespace req)))),
                op4] of
          Inl err \<Rightarrow> r = (resp0 req)\<lparr>Result := Some \<lparr>Status = err\<rparr>\<rparr>
        | Inr bs \<Rightarrow> r = allowed ((resp0 req)\<lparr>Patch := Some bs,
                                               PatchType := Some PatchTypeJSONPatch\<rparr>)"
    by blast
  then have "case json_Marshal k
               [op1, op2,
                createVolumesPatch (reviewPath req) (Volumes spec)
                  (psaLevelByNamespace (fst (namespaces_Get k (AdmissionRequest.Namespace req)))),
                op4] of
              Inl err \<Rightarrow>
                r = \<lparr>AdmissionResponse.UID = AdmissionRequest.UID req, Allowed = False,
                     Result = Some \<lparr>Status = err\<rparr>, Patch = None, PatchType = None\<rparr>
            | Inr bs \<Rightarrow>
                r = \<lparr>AdmissionResponse.UID = AdmissionRequest.UID req, Allowed = True,
                     Result = None, Patch = Some bs, PatchType = Some ''JSONPatch''\<rparr>"
    by (simp add: resp0_def allowed_def PatchTypeJSONPatch_def split: sum.splits)
  then show ?thesis by blast
qed

lemma sample_Review:
  "fst (Review sampleCrypto samplePlatform sampleConfig samplePodRequest) =
     Inr \<lparr>AdmissionResponse.UID = ''u1'', Allowed = True, Result = None,
          Patch = Some ''PATCH'', PatchType = Some ''JSONPatch''\<rparr>"
proof -
  have c: "AdmissionRequest.Operation samplePodRequest = ''CREATE''"
    by (simp add: samplePodRequest_def)
  have ns: "namespaces_Get samplePlatform name = (Some sampleNamespace, None)" for name
    by (simp add: samplePlatform_def)
  have k: "Kind_Kind samplePodRequest = ''Pod''"
    and uid: "AdmissionRequest.UID samplePodRequest = ''u1''"
    by (simp_all add: samplePodRequest_def)
  have ne: "sampleAnnotation \<noteq> []" by (simp add: sampleAnnotation_def)
  have e: "effectiveAnnotation sampleConfig (Kind_Kind samplePodRequest)
      (Pod.ObjectMeta samplePod)
      (fst (namespaces_Get samplePlatform (AdmissionRequest.Namespace samplePodRequest))) =
      Some sampleAnnotation"
    by (simp add: ns k sample_effective)
  have l: "ObjectMeta.Labels (Pod.ObjectMeta samplePod) = Some [''app'' \<mapsto> ''demo'']"
    by (simp add: samplePod_def)
  have jm: "json_Marshal samplePlatform ops = Inr ''PATCH''" for ops
    by (simp add: samplePlatform_def)
  from Review_patch_ok[OF sample_envs sample_sidecarResources l, of "resp0 samplePodRequest"
      "reviewPath samplePodRequest" "Pod.Spec samplePod" "Some sampleNamespace" sampleAnnotation]
  have "fst (Review_patch sampleCrypto samplePlatform sampleConfig (resp0 samplePodRequest)
               (reviewPath samplePodRequest) (Pod.ObjectMeta samplePod) (Pod.Spec samplePod)
               (Some sampleNamespace) sampleAnnotation) =
        Inr (allowed ((resp0 samplePodRequest)\<lparr>Patch := Some ''PATCH'',
                         PatchType := Some PatchTypeJSONPatch\<rparr>))"
    by (auto simp: jm)
  then show ?thesis
    by (simp add: Review_create_patch(1)[OF c sample_unmarshal e ne] ns resp0_def allowed_def uid
        PatchTypeJSONPatch_def)
qed

text \<open>
  C7. The volumes patch appends exactly two volumes to the workload's volumes, named
  for the two sockets: when the level is not \<open>privileged\<close> both have a CSI source marked
  read-only and no host path, and when it is \<open>privileged\<close> both have a host-path source
  at \<open>/run/spire/sockets\<close> and \<open>/var/lib/networkservicemesh\<close>. The level is
  \<open>privileged\<close> when the namespace is \<open>nil\<close>, when its enforcement label is not one of
  the three level names, and in particular when the label map or the label is missing,
  so host paths are used then. Every patch that \<open>Review\<close> returns for a CREATE request is
  the encoding of four operations, the third of which is this volumes patch at the
  level of the request's namespace.
\<close>

theorem createVolumesPatch_by_level:
  "(psaLevel \<noteq> ''privileged'' \<longrightarrow>
      createVolumesPatch p volumes psaLevel = volumesOperation p (volumes @ csiVolumes)) \<and>
   (psaLevel = ''privileged'' \<longrightarrow>
      createVolumesPatch p volumes psaLevel = volumesOperation p (volumes @ hostPathVolumes)) \<and>
   psaLevelByNamespace None = ''privileged'' \<and>
   createVolumesPatch p volumes (psaLevelByNamespace None) =
     volumesOperation p (volumes @ hostPathVolumes) \<and>
   (mapGet (ObjectMeta.Labels (corev1_Namespace.ObjectMeta ns)) ''pod-security.kubernetes.io/enforce''
       \<notin> {''privileged'', ''baseline'', ''restricted''} \<longrightarrow>
      psaLevelByNamespace (Some ns) = ''privileged'' \<and>
      createVolumesPatch p volumes (psaLevelByNamespace (Some ns)) =
        volumesOperation p (volumes @ hostPathVolumes)) \<and>
   (ObjectMeta.Labels (corev1_Namespace.ObjectMeta ns) = None \<longrightarrow>
      psaLevelByNamespace (Some ns) = ''privileged'') \<and>
   (\<forall>f. ObjectMeta.Labels (corev1_Namespace.ObjectMeta ns) = Some f \<and>
        f ''pod-security.kubernetes.io/enforce'' = None \<longrightarrow>
      psaLevelByNamespace (Some ns) = ''privileged'') \<and>
   (\<forall>x k cfg req r bs.
      AdmissionRequest.Operation req = ''CREATE'' \<and> fst (Review x k cfg req) = Inr r \<and>
      Patch r = Some bs \<longrightarrow>
      (\<exists>podMeta spec evs1 op1 op2 op4.
         unmarshal k req = Inr (Some (podMeta, spec), evs1) \<and>
         json_Marshal k
           [op1, op2,
            createVolumesPatch (reviewPath req) (Volumes spec)
              (psaLevelByNamespace (fst (namespaces_Get k (AdmissionRequest.Namespace req)))),
            op4] = Inr bs))"
proof (intro conjI impI allI)
  fix x k cfg req r bs
  assume a: "AdmissionRequest.Operation req = ''CREATE'' \<and> fst (Review x k cfg req) = Inr r \<and>
      Patch r = Some bs"
  then have c: "AdmissionRequest.Operation req = ''CREATE''"
    and f: "fst (Review x k cfg req) = Inr r" and pb: "Patch r = Some bs" by simp_all
  from Review_patched[OF c f pb] obtain podMeta spec evs1 a where
    u: "unmarshal k req = Inr (Some (podMeta, spec), evs1)"
    and rp: "fst (Review_patch x k cfg (resp0 req) (reviewPath req) podMeta spec
                  (fst (namespaces_Get k (AdmissionRequest.Namespace req))) a) = Inr r"
    by blast
  from Review_patch_volumes[OF rp pb] u
  show "\<exists>podMeta spec evs1 op1 op2 op4.
         unmarshal k req = Inr (Some (podMeta, spec), evs1) \<and>
         json_Marshal k
           [op1, op2,
            createVolumesPatch (reviewPath req) (Volumes spec)
              (psaLevelByNamespace (fst (namespaces_Get k (AdmissionRequest.Namespace req)))),
            op4] = Inr bs"
    by blast
next
  show "psaLevelByNamespace None = ''privileged''"
    by (simp add: psaLevelByNamespace_def LevelPrivileged_def)
  then show "createVolumesPatch p volumes (psaLevelByNamespace None) =
     volumesOperation p (volumes @ hostPathVolumes)"
    by (simp add: createVolumesPatch_cases)
next
  assume "psaLevel \<noteq> ''privileged''"
  then show "createVolumesPatch p volumes psaLevel = volumesOperation p (volumes @ csiVolumes)"
    by (simp add: createVolumesPatch_cases)
next
  assume "psaLevel = ''privileged''"
  then show "createVolumesPatch p volumes psaLevel = volumesOperation p (volumes @ hostPathVolumes)"
    by (simp add: createVolumesPatch_cases)
next
  assume b: "mapGet (ObjectMeta.Labels (corev1_Namespace.ObjectMeta ns)) ''pod-security.kubernetes.io/enforce''
       \<notin> {''privileged'', ''baseline'', ''restricted''}"
  show "psaLevelByNamespace (Some ns) = ''privileged''"
    by (rule psaLevelByNamespace_rejected[OF b])
  then show "createVolumesPatch p volumes (psaLevelByNamespace (Some ns)) =
        volumesOperation p (volumes @ hostPathVolumes)"
    by (simp add: createVolumesPatch_cases)
next
  assume "ObjectMeta.Labels (corev1_Namespace.ObjectMeta ns) = None"
  then have "mapGet (ObjectMeta.Labels (corev1_Namespace.ObjectMeta ns)) ''pod-security.kubernetes.io/enforce''
       \<notin> {''privileged'', ''baseline'', ''restricted''}"
    by (simp add: mapGet_def)
  then show "psaLevelByNamespace (Some ns) = ''privileged''"
    by (rule psaLevelByNamespace_rejected)
next
  fix f
  assume "ObjectMeta.Labels (corev1_Namespace.ObjectMeta ns) = Some f \<and>
        f ''pod-security.kubernetes.io/enforce'' = None"
  then have "mapGet (ObjectMeta.Labels (corev1_Namespace.ObjectMeta ns)) ''pod-security.kubernetes.io/enforce''
       \<notin> {''privileged'', ''baseline'', ''restricted''}"
    by (simp add: mapGet_def)
  then show "psaLevelByNamespace (Some ns) = ''privileged''"
    by (rule psaLevelByNamespace_rejected)
qed

theorem createVolumesPatch_by_level_witness:
  "createVolumesPatch ''/'' [] ''restricted'' = volumesOperation ''/'' csiVolumes \<and>
   createVolumesPatch ''/'' [] ''privileged'' = volumesOperation ''/'' hostPathVolumes \<and>
   psaLevelByNamespace (Some sampleNamespace) = ''restricted'' \<and>
   psaLevelByNamespace (Some badLevelNamespace) = ''privileged'' \<and>
   createVolumesPatch ''/'' [] (psaLevelByNamespace (Some badLevelNamespace)) =
     volumesOperation ''/'' hostPathVolumes \<and>
   psaLevelByNamespace (Some unlabelledNamespace) = ''privileged'' \<and>
   psaLevelByNamespace (Some otherLabelNamespace) = ''privileged'' \<and>
   Patch (projr (fst (Review sampleCrypto samplePlatform sampleConfig samplePodRequest))) =
     Some ''PATCH'' \<and>
   (\<exists>op1 op2 op4.
      json_Marshal samplePlatform
        [op1, op2, volumesOperation (reviewPath samplePodRequest) csiVolumes, op4] = Inr ''PATCH'')"
proof -
  have r: "psaLevelByNamespace (Some sampleNamespace) = ''restricted''"
    by (simp add: psaLevelByNamespace_def sampleNamespace_def mapGet_def EnforceLevelLabel_def
        psa_ParseLevel_def LevelPrivileged_def LevelBaseline_def LevelRestricted_def)
  have b: "mapGet (ObjectMeta.Labels (corev1_Namespace.ObjectMeta badLevelNamespace))
             ''pod-security.kubernetes.io/enforce'' \<notin> {''privileged'', ''baseline'', ''restricted''}"
    by (simp add: badLevelNamespace_def mapGet_def)
  have u: "ObjectMeta.Labels (corev1_Namespace.ObjectMeta unlabelledNamespace) = None"
    by (simp add: unlabelledNamespace_def)
  have o: "ObjectMeta.Labels (corev1_Namespace.ObjectMeta otherLabelNamespace) = Some [''team'' \<mapsto> ''a''] \<and>
           [''team'' \<mapsto> ''a''] ''pod-security.kubernetes.io/enforce'' = None"
    by (simp add: otherLabelNamespace_def)
  have c: "AdmissionRequest.Operation samplePodRequest = ''CREATE''"
    by (simp add: samplePodRequest_def)
  have ns: "fst (namespaces_Get samplePlatform (AdmissionRequest.Namespace samplePodRequest)) =
              Some sampleNamespace"
    by (simp add: samplePlatform_def)
  have pt: "Patch \<lparr>AdmissionResponse.UID = ''u1'', Allowed = True, Result = None,
          Patch = Some ''PATCH'', PatchType = Some ''JSONPatch''\<rparr> = Some ''PATCH''"
    by simp
  note t1 = createVolumesPatch_by_level[of "''restricted''" "''/''" "[]" badLevelNamespace]
  note t2 = createVolumesPatch_by_level[of "''privileged''" "''/''" "[]" unlabelledNamespace]
  note t3 = createVolumesPatch_by_level[of "''privileged''" "''/''" "[]" otherLabelNamespace]
  from t1 have "\<exists>podMeta spec evs1 op1 op2 op4.
         unmarshal samplePlatform samplePodRequest = Inr (Some (podMeta, spec), evs1) \<and>
         json_Marshal samplePlatform
           [op1, op2,
            createVolumesPatch (reviewPath samplePodRequest) (Volumes spec)
              (psaLevelByNamespace
                (fst (namespaces_Get samplePlatform (AdmissionRequest.Namespace samplePodRequest)))),
            op4] = Inr ''PATCH''"
    using c sample_Review pt by blast
  then obtain op1 op2 op4 where
    "json_Marshal samplePlatform
           [op1, op2,
            createVolumesPatch (reviewPath samplePodRequest) (Volumes (Pod.Spec samplePod))
              (psaLevelByNamespace (Some sampleNamespace)),
            op4] = Inr ''PATCH''"
    by (auto simp: sample_unmarshal ns)
  moreover have "Volumes (Pod.Spec samplePod) = []"
    by (simp add: samplePod_def)
  moreover have "createVolumesPatch (reviewPath samplePodRequest) [] ''restricted'' =
      volumesOperation (reviewPath samplePodRequest) csiVolumes"
    using createVolumesPatch_by_level[of "''restricted''" "reviewPath samplePodRequest" "[]"
        badLevelNamespace]
    by simp
  ultimately have "json_Marshal samplePlatform
        [op1, op2, volumesOperation (reviewPath samplePodRequest) csiVolumes, op4] = Inr ''PATCH''"
    by (simp add: r)
  then have j: "\<exists>op1 op2 op4.
      json_Marshal samplePlatform
        [op1, op2, volumesOperation (reviewPath samplePodRequest) csiVolumes, op4] = Inr ''PATCH''"
    by blast
  from t1 t2 t3 r b u o j show ?thesis
    by (simp add: sample_Review)
qed

subsection \<open>The label patch\<close>

lemma storeLabels_map_add: "storeLabels entries m = m ++ map_of (rev entries)"
proof (induction entries arbitrary: m)
  case Nil
  then show ?case by simp
next
  case (Cons e entries)
  obtain key val where e: "e = (key, val)" by (cases e) auto
  show ?case
    by (rule ext) (simp add: e Cons.IH map_add_def split: option.splits)
qed

lemma storeLabels_idem: "storeLabels entries (storeLabels entries m) = storeLabels entries m"
  by (rule ext) (simp add: storeLabels_map_add map_add_def split: option.splits)

lemma map_of_rev_distinct:
  "distinct (map fst entries) \<Longrightarrow> map_of (rev entries) = map_of entries"
  by (rule map_of_inject_set[THEN iffD2]) (simp_all add: rev_map[symmetric])

text \<open>
  C8. The label patch re-emits the workload's label map after storing every configured
  entry into it: a key of the configured map has the configured value, any other key
  keeps the workload's value. Storing the entries a second time changes nothing, and
  the patch of the merged map is the patch of the original one. The label map of a
  view that \<open>unmarshal\<close> returns is never \<open>nil\<close>, so the stores cannot panic.
\<close>

theorem createLabelPatch_merge:
  "createLabelPatch cfg p (Some m) =
     Inr \<lparr>Operation = ''add'', Path = path_Join [p, ''metadata'', ''labels''],
          Value = LabelsValue (Some (storeLabels (Config.Labels cfg) m))\<rparr> \<and>
   (distinct (map fst (Config.Labels cfg)) \<longrightarrow>
      (\<forall>key. storeLabels (Config.Labels cfg) m key =
              (case map_of (Config.Labels cfg) key of Some v \<Rightarrow> Some v | None \<Rightarrow> m key))) \<and>
   storeLabels (Config.Labels cfg) (storeLabels (Config.Labels cfg) m) =
     storeLabels (Config.Labels cfg) m \<and>
   createLabelPatch cfg p (Some (storeLabels (Config.Labels cfg) m)) =
     createLabelPatch cfg p (Some m) \<and>
   (case unmarshal k req of
      Inr (Some (podMeta, spec), evs) \<Rightarrow> ObjectMeta.Labels podMeta \<noteq> None
    | _ \<Rightarrow> True)"
proof -
  have look: "\<forall>key. storeLabels (Config.Labels cfg) m key =
              (case map_of (Config.Labels cfg) key of Some v \<Rightarrow> Some v | None \<Rightarrow> m key)"
    if "distinct (map fst (Config.Labels cfg))"
    by (simp add: storeLabels_map_add map_of_rev_distinct[OF that] map_add_def
        split: option.splits)
  have nonnil: "(case unmarshal k req of
      Inr (Some (podMeta, spec), evs) \<Rightarrow> ObjectMeta.Labels podMeta \<noteq> None
    | _ \<Rightarrow> True)"
    using unmarshal_Labels[of k req]
    by (auto split: sum.splits option.splits prod.splits)
  show ?thesis
    using look nonnil
    by (simp add: createLabelPatch_def storeLabels_idem jsonpatch_NewOperation_def)
qed

theorem createLabelPatch_merge_witness:
  "distinct (map fst (Config.Labels sampleConfig)) \<and>
   storeLabels (Config.Labels sampleConfig) [''app'' \<mapsto> ''demo'', ''mesh'' \<mapsto> ''off''] ''mesh'' =
     Some ''on'' \<and>
   storeLabels (Config.Labels sampleConfig) [''app'' \<mapsto> ''demo'', ''mesh'' \<mapsto> ''off''] ''app'' =
     Some ''demo'' \<and>
   storeLabels (Config.Labels sampleConfig) [''app'' \<mapsto> ''demo'', ''mesh'' \<mapsto> ''off''] ''tier'' =
     None"
proof -
  have d: "distinct (map fst (Config.Labels sampleConfig))"
    by (simp add: sampleConfig_def)
  have l: "map_of (Config.Labels sampleConfig) = [''mesh'' \<mapsto> ''on'']"
    by (simp add: sampleConfig_def)
  from createLabelPatch_merge[of sampleConfig "''/''" "[''app'' \<mapsto> ''demo'', ''mesh'' \<mapsto> ''off'']"]
    d
  have "\<forall>key. storeLabels (Config.Labels sampleConfig) [''app'' \<mapsto> ''demo'', ''mesh'' \<mapsto> ''off''] key =
              (case map_of (Config.Labels sampleConfig) key of
                 Some v \<Rightarrow> Some v
               | None \<Rightarrow> [''app'' \<mapsto> ''demo'', ''mesh'' \<mapsto> ''off''] key)"
    by blast
  with d show ?thesis
    by (simp add: l)
qed

end
